theory Spec2Isabelle
  imports Complex_Main "HOL-Library.Multiset"
begin

section \<open>Data model of the session coordinator (server.js)\<close>

text \<open>
  JavaScript numbers are modelled as unbounded integers: every quantity the handlers compute
  from integer inputs (tokens, asset counts, prices, round numbers) stays an integer, and a
  double is exact on integers far beyond the sizes a game reaches. The two places where the
  source leaves the integers are written with reals: \<open>Math.floor(price * 0.8)\<close> and
  \<open>Math.floor(Math.random() * 40)\<close>.

  Timestamps (\<open>createdAt\<close>), the timers' handles and the socket rooms are not part of the
  model; every handler is a function from the state before the event to the state after it.
\<close>

text \<open>The three resource keys \<open>"gold"\<close>, \<open>"water"\<close>, \<open>"oil"\<close> (the value of
  \<open>resource.toLowerCase()\<close>).\<close>

datatype resource = Gold | Water | Oil

text \<open>The shape \<open>{ gold, water, oil }\<close> of \<open>player.assets\<close> and of \<open>game.marketPrices\<close>.\<close>

record resource_amounts =
  gold :: int
  water :: int
  oil :: int

fun getr :: "resource \<Rightarrow> resource_amounts \<Rightarrow> int" where
  "getr Gold m = gold m"
| "getr Water m = water m"
| "getr Oil m = oil m"

fun setr :: "resource \<Rightarrow> int \<Rightarrow> resource_amounts \<Rightarrow> resource_amounts" where
  "setr Gold v m = m\<lparr>gold := v\<rparr>"
| "setr Water v m = m\<lparr>water := v\<rparr>"
| "setr Oil v m = m\<lparr>oil := v\<rparr>"

text \<open>\<open>createPlayer\<close>'s object. \<open>walletAddress\<close> is \<open>null\<close> (\<open>None\<close>) or a string.\<close>

record player =
  id_p :: string
  name :: string
  socketId :: string
  walletAddress :: "string option"
  tokens :: int
  assets :: resource_amounts
  totalAssets :: int
  connected_p :: bool

text \<open>\<open>{ ...player, finalScore }\<close> of \<open>finishGame\<close>.\<close>

record scored_player = player +
  finalScore :: int

record marketChange =
  resource :: resource
  change :: int
  percentage :: string

record clock =
  hours :: int
  minutes :: int
  seconds :: int

text \<open>\<open>game.roundDelay = { active, timeRemaining }\<close>; the field is absent (\<open>None\<close>) outside
  the pause between two rounds.\<close>

record round_delay =
  active :: bool
  timeRemaining_d :: int

datatype status = Waiting | Playing | Finished | Closed

record game =
  currentRound :: int
  maxRounds :: int
  timeRemaining :: clock
  players :: "player list"
  marketChanges :: "marketChange list"
  marketPrices :: "resource_amounts option"
  recentActions :: "string list"
  actionHistory :: "int \<rightharpoonup> string list"
  status :: status
  host :: "string option"
  timerActive :: bool
  roundInProgress :: bool
  roundDelay :: "round_delay option"
  exitedPlayers :: "string set option"
  winner :: "scored_player option"
  finalScores :: "scored_player list option"
  gameName :: string
  isPrivate :: bool

subsection \<open>JavaScript helpers\<close>

text \<open>Truthiness of a value that is \<open>undefined\<close>/\<open>null\<close> or a string: the empty string is
  falsy.\<close>

fun truthy_str :: "string option \<Rightarrow> bool" where
  "truthy_str None = False"
| "truthy_str (Some s) = (s \<noteq> [])"

text \<open>\<open>Array.prototype.find\<close> returns a reference to the first element that satisfies the
  predicate, and the handlers mutate the object behind it. The model keeps the position of
  that element and writes the changed element back, so that two references to one player
  (an actor who is its own target) see each other's writes.\<close>

fun findIndex :: "('a \<Rightarrow> bool) \<Rightarrow> 'a list \<Rightarrow> nat option" where
  "findIndex P [] = None"
| "findIndex P (x # xs) = (if P x then Some 0 else map_option Suc (findIndex P xs))"

text \<open>Decimal rendering of a number inside a template literal.\<close>

fun show_nat :: "nat \<Rightarrow> string" where
  "show_nat n =
     (if n < 10 then [''0123456789'' ! n]
      else show_nat (n div 10) @ [''0123456789'' ! (n mod 10)])"

definition show_int :: "int \<Rightarrow> string" where
  "show_int i = (if i < 0 then ''-'' @ show_nat (nat (- i)) else show_nat (nat i))"

text \<open>\<open>resource.charAt(0).toUpperCase() + resource.slice(1)\<close> on the resource's key.\<close>

fun capitalized :: "resource \<Rightarrow> string" where
  "capitalized Gold = ''Gold''"
| "capitalized Water = ''Water''"
| "capitalized Oil = ''Oil''"

subsection \<open>Templates\<close>

definition defaultPrices :: resource_amounts where
  "defaultPrices = \<lparr>gold = 100, water = 50, oil = 150\<rparr>"

text \<open>\<open>game.marketPrices || { gold: 100, water: 50, oil: 150 }\<close>\<close>

definition resourcePrices :: "game \<Rightarrow> resource_amounts" where
  "resourcePrices g = (case marketPrices g of Some m \<Rightarrow> m | None \<Rightarrow> defaultPrices)"

definition createInitialGameState :: game where
  "createInitialGameState =
     \<lparr>currentRound = 1, maxRounds = 20,
      timeRemaining = \<lparr>hours = 0, minutes = 1, seconds = 0\<rparr>,
      players = [],
      marketChanges =
        [\<lparr>resource = Gold, change = 0, percentage = ''+0%''\<rparr>,
         \<lparr>resource = Water, change = 0, percentage = ''+0%''\<rparr>,
         \<lparr>resource = Oil, change = 0, percentage = ''+0%''\<rparr>],
      marketPrices = Some \<lparr>gold = 100, water = 50, oil = 150\<rparr>,
      recentActions = [],
      actionHistory = Map.empty,
      status = Waiting,
      host = None,
      timerActive = False,
      roundInProgress = False,
      roundDelay = None,
      exitedPlayers = None,
      winner = None,
      finalScores = None,
      gameName = [],
      isPrivate = False\<rparr>"

definition createPlayer :: "string \<Rightarrow> string \<Rightarrow> string \<Rightarrow> string option \<Rightarrow> player" where
  "createPlayer playerId playerName sock wallet =
     \<lparr>id_p = playerId, name = playerName, socketId = sock, walletAddress = wallet,
      tokens = 1000, assets = \<lparr>gold = 0, water = 0, oil = 0\<rparr>, totalAssets = 0,
      connected_p = True\<rparr>"

section \<open>The player-action handler\<close>

datatype action = Buy | Sell | Burn | Sabotage | OtherAction

text \<open>\<open>player.totalAssets = player.assets.gold + player.assets.water + player.assets.oil\<close>\<close>

definition recomputeTotal :: "player \<Rightarrow> player" where
  "recomputeTotal p = p\<lparr>totalAssets := gold (assets p) + water (assets p) + oil (assets p)\<rparr>"

text \<open>\<open>Math.floor(price * 0.8)\<close>, with the product taken in the reals. The double nearest
  to 0.8 exceeds it by \<open>0.2 * 2^-52\<close>, so for an integer price of magnitude below \<open>2^50\<close>
  the double product stays strictly between the same two integers (and is the exact
  integer when 5 divides the price): the floor is the same.\<close>

definition sellPrice :: "int \<Rightarrow> int" where
  "sellPrice price = \<lfloor>real_of_int price * 0.8\<rfloor>"

text \<open>Each case of the \<open>switch\<close> returns the game after its writes and the action text
  (\<open>""\<close> when the case did not succeed). \<open>i\<close> is the position of the acting player.\<close>

definition buyCase :: "game \<Rightarrow> nat \<Rightarrow> resource \<Rightarrow> int \<Rightarrow> int \<Rightarrow> game \<times> string" where
  "buyCase g i res amount price =
     (let p = players g ! i in
      if tokens p \<ge> price then
        (g\<lparr>players := (players g)
             [i := p\<lparr>tokens := tokens p - price,
                     assets := setr res (getr res (assets p) + amount) (assets p)\<rparr>]\<rparr>,
         name p @ '' bought '' @ show_int amount @ '' '' @ capitalized res @ '' for ''
           @ show_int price @ '' tokens'')
      else (g, []))"

definition sellCase :: "game \<Rightarrow> nat \<Rightarrow> resource \<Rightarrow> int \<Rightarrow> int \<Rightarrow> game \<times> string" where
  "sellCase g i res amount price =
     (let p = players g ! i in
      if getr res (assets p) \<ge> amount then
        (g\<lparr>players := (players g)
             [i := p\<lparr>tokens := tokens p + sellPrice price,
                     assets := setr res (getr res (assets p) - amount) (assets p)\<rparr>]\<rparr>,
         name p @ '' sold '' @ show_int amount @ '' '' @ capitalized res @ '' for ''
           @ show_int (sellPrice price) @ '' tokens'')
      else (g, []))"

definition bumpChange :: "int \<Rightarrow> marketChange \<Rightarrow> marketChange" where
  "bumpChange amount m =
     (let c = change m + amount * 3 in
      m\<lparr>change := c, percentage := (if c > 0 then ''+'' else []) @ show_int c @ ''%''\<rparr>)"

definition burnCase :: "game \<Rightarrow> nat \<Rightarrow> resource \<Rightarrow> int \<Rightarrow> game \<times> string" where
  "burnCase g i res amount =
     (let p = players g ! i in
      if getr res (assets p) \<ge> amount then
        (let g1 = g\<lparr>players := (players g)
                     [i := p\<lparr>assets := setr res (getr res (assets p) - amount) (assets p)\<rparr>]\<rparr>;
             g2 = (case findIndex (\<lambda>m. resource m = res) (marketChanges g1) of
                     None \<Rightarrow> g1
                   | Some k \<Rightarrow> g1\<lparr>marketChanges := (marketChanges g1)
                                  [k := bumpChange amount (marketChanges g1 ! k)]\<rparr>)
         in (g2, name p @ '' burned '' @ show_int amount @ '' '' @ capitalized res
                   @ '' to boost market price''))
      else (g, []))"

definition sabotageCase ::
  "game \<Rightarrow> nat \<Rightarrow> resource \<Rightarrow> int \<Rightarrow> string option \<Rightarrow> game \<times> string" where
  "sabotageCase g i res amount targetPlayer =
     (let p = players g ! i in
      if tokens p \<ge> 100 \<and> truthy_str targetPlayer then
        (let g1 = g\<lparr>players := (players g)[i := p\<lparr>tokens := tokens p - 100\<rparr>]\<rparr> in
         case findIndex (\<lambda>q. Some (id_p q) = targetPlayer) (players g1) of
           None \<Rightarrow> (g1, [])
         | Some j \<Rightarrow>
             (let t = players g1 ! j in
              if getr res (assets t) \<ge> amount then
                (g1\<lparr>players := (players g1)
                      [j := recomputeTotal
                         (t\<lparr>assets := setr res (max 0 (getr res (assets t) - amount))
                                        (assets t)\<rparr>)]\<rparr>,
                 name p @ '' sabotaged '' @ name t @ [CHR 0x27] @ ''s '' @ capitalized res
                   @ '' reserves'')
              else (g1, [])))
      else (g, []))"

text \<open>The handler's body once the socket's binding and a playing game are found.\<close>

definition playerAction ::
  "game \<Rightarrow> string \<Rightarrow> action \<Rightarrow> resource \<Rightarrow> int \<Rightarrow> string option \<Rightarrow> game" where
  "playerAction g playerId act res amount targetPlayer =
     (case findIndex (\<lambda>p. id_p p = playerId) (players g) of
        None \<Rightarrow> g
      | Some i \<Rightarrow>
          (let price = getr res (resourcePrices g) * amount;
               (g1, actionText) =
                  (case act of
                     Buy \<Rightarrow> buyCase g i res amount price
                   | Sell \<Rightarrow> sellCase g i res amount price
                   | Burn \<Rightarrow> burnCase g i res amount
                   | Sabotage \<Rightarrow> sabotageCase g i res amount targetPlayer
                   | OtherAction \<Rightarrow> (g, []));
               g2 = g1\<lparr>players := (players g1)[i := recomputeTotal (players g1 ! i)]\<rparr>
           in if actionText \<noteq> [] then g2\<lparr>recentActions := take 10 (actionText # recentActions g2)\<rparr>
              else g2))"

section \<open>Final scoring\<close>

text \<open>\<open>Array.prototype.sort\<close> with a comparator is a stable sort (ECMAScript 2019): modelled
  as the insertion sort that puts \<open>a\<close> before \<open>b\<close> when \<open>cmp a b \<le> 0\<close> and keeps the order
  of the input otherwise.\<close>

fun insertBy :: "('a \<Rightarrow> 'a \<Rightarrow> int) \<Rightarrow> 'a \<Rightarrow> 'a list \<Rightarrow> 'a list" where
  "insertBy cmp x [] = [x]"
| "insertBy cmp x (y # ys) = (if cmp x y \<le> 0 then x # y # ys else y # insertBy cmp x ys)"

definition sortBy :: "('a \<Rightarrow> 'a \<Rightarrow> int) \<Rightarrow> 'a list \<Rightarrow> 'a list" where
  "sortBy cmp xs = foldr (insertBy cmp) xs []"

definition scorePlayer :: "resource_amounts \<Rightarrow> player \<Rightarrow> scored_player" where
  "scorePlayer mp p =
     (let goldValue = gold (assets p) * gold mp;
          waterValue = water (assets p) * water mp;
          oilValue = oil (assets p) * oil mp
      in \<lparr>id_p = id_p p, name = name p, socketId = socketId p,
          walletAddress = walletAddress p, tokens = tokens p, assets = assets p,
          totalAssets = totalAssets p, connected_p = connected_p p,
          finalScore = tokens p + goldValue + waterValue + oilValue\<rparr>)"

text \<open>The in-memory part of \<open>finishGame\<close>. \<open>finalPlayers[0]\<close> of an empty array is
  \<open>undefined\<close>: no winner.\<close>

definition finishGame :: "game \<Rightarrow> game" where
  "finishGame g =
     (let mp = resourcePrices g;
          finalPlayers =
            sortBy (\<lambda>a b. finalScore b - finalScore a) (map (scorePlayer mp) (players g))
      in g\<lparr>status := Finished, timerActive := False,
           winner := (case finalPlayers of [] \<Rightarrow> None | w # _ \<Rightarrow> Some w),
           finalScores := Some finalPlayers\<rparr>)"

section \<open>The round timer\<close>

text \<open>\<open>Math.random()\<close> is a parameter: a real \<open>r\<close> with \<open>0 \<le> r < 1\<close>. The \<open>k\<close>-th call
  inside one \<open>map\<close> over the market changes returns \<open>rnd k\<close>. The product \<open>r * 40\<close> is
  taken in the reals; the double product of a draw below 1 is below 40 as well, so the
  outcomes of \<open>Math.floor(Math.random() * 40)\<close> are \<open>0, \<dots>, 39\<close> in both readings.\<close>

definition randomChange :: "real \<Rightarrow> int" where
  "randomChange r = \<lfloor>r * 40\<rfloor> - 20"

definition signedPercent :: "int \<Rightarrow> string" where
  "signedPercent c = (if c > 0 then ''+'' else []) @ show_int c @ ''%''"

definition rerandomize :: "(nat \<Rightarrow> real) \<Rightarrow> marketChange list \<Rightarrow> marketChange list" where
  "rerandomize rnd ms =
     map (\<lambda>(k, m). m\<lparr>change := randomChange (rnd k),
                      percentage := signedPercent (randomChange (rnd k))\<rparr>)
       (enumerate 0 ms)"

text \<open>\<open>game.roundDelay && game.roundDelay.active\<close>\<close>

definition inRoundDelay :: "game \<Rightarrow> bool" where
  "inRoundDelay g = (case roundDelay g of None \<Rightarrow> False | Some d \<Rightarrow> active d)"

text \<open>The tick of the ten-second pause: the branch taken when \<open>inRoundDelay\<close> holds.\<close>

definition delayTick :: "(nat \<Rightarrow> real) \<Rightarrow> round_delay \<Rightarrow> game \<Rightarrow> game" where
  "delayTick rnd d g =
     (let d1 = d\<lparr>timeRemaining_d := timeRemaining_d d - 1\<rparr> in
      if timeRemaining_d d1 \<le> 0 then
        (let g1 = g\<lparr>roundDelay := None\<rparr>;
             g2 = (if length (recentActions g1) > 0
                   then g1\<lparr>actionHistory :=
                            (actionHistory g1)(currentRound g1 \<mapsto> recentActions g1)\<rparr>
                   else g1);
             g3 = g2\<lparr>currentRound := currentRound g2 + 1, recentActions := []\<rparr>
         in if currentRound g3 > maxRounds g3 then finishGame g3
            else g3\<lparr>timeRemaining := \<lparr>hours = 0, minutes = 1, seconds = 0\<rparr>,
                    marketChanges := rerandomize rnd (marketChanges g3)\<rparr>)
      else g\<lparr>roundDelay := Some d1\<rparr>)"

text \<open>The tick of the running round: the countdown with its borrows.\<close>

definition countdownTick :: "game \<Rightarrow> game" where
  "countdownTick g =
     (let newSeconds = seconds (timeRemaining g) - 1;
          newMinutes = minutes (timeRemaining g);
          newHours = hours (timeRemaining g);
          (newSeconds, newMinutes) =
             (if newSeconds < 0 then (59, newMinutes - 1) else (newSeconds, newMinutes));
          (newMinutes, newHours) =
             (if newMinutes < 0 then (59, newHours - 1) else (newMinutes, newHours))
      in if newHours < 0 then g\<lparr>roundDelay := Some \<lparr>active = True, timeRemaining_d = 10\<rparr>\<rparr>
         else g\<lparr>timeRemaining :=
                  \<lparr>hours = newHours, minutes = newMinutes, seconds = newSeconds\<rparr>\<rparr>)"

text \<open>One firing of \<open>startGameTimer\<close>'s interval on the game it finds in the store. A game
  whose \<open>timerActive\<close> is false clears the interval: the tick changes nothing.\<close>

definition tick :: "(nat \<Rightarrow> real) \<Rightarrow> game \<Rightarrow> game" where
  "tick rnd g =
     (if \<not> timerActive g then g
      else if inRoundDelay g then delayTick rnd (the (roundDelay g)) g
      else countdownTick g)"

text \<open>\<open>n\<close> consecutive firings; \<open>rnd t\<close> is the random source of firing number \<open>t\<close>
  (counted from 0).\<close>

fun ticks :: "nat \<Rightarrow> (nat \<Rightarrow> nat \<Rightarrow> real) \<Rightarrow> game \<Rightarrow> game" where
  "ticks 0 rnd g = g"
| "ticks (Suc n) rnd g = tick (rnd n) (ticks n rnd g)"

text \<open>The five-second market fluctuation of every playing game.\<close>

definition fluctuate :: "(nat \<Rightarrow> real) \<Rightarrow> game \<Rightarrow> game" where
  "fluctuate rnd g =
     (if status g = Playing then
        g\<lparr>marketChanges :=
            map (\<lambda>(k, m).
                  (let fluctuation = \<lfloor>rnd k * 10\<rfloor> - 5;
                       newChange = max (- 50) (min 50 (change m + fluctuation))
                   in m\<lparr>change := newChange, percentage := signedPercent newChange\<rparr>))
              (enumerate 0 (marketChanges g))\<rparr>
      else g)"

section \<open>Host identity, disconnect and exit\<close>

text \<open>\<open>game.players.find(...)?.walletAddress\<close>: \<open>None\<close> is \<open>undefined\<close> (no such player),
  \<open>Some None\<close> is \<open>null\<close>.\<close>

definition walletOf :: "game \<Rightarrow> string option \<Rightarrow> string option option" where
  "walletOf g pid = map_option walletAddress (find (\<lambda>p. Some (id_p p) = pid) (players g))"

definition isHost :: "game \<Rightarrow> string \<Rightarrow> bool" where
  "isHost g playerId =
     (host g = Some playerId
      \<or> walletOf g (Some playerId) = walletOf g (host g)
      \<or> (length (players g) > 0 \<and> id_p (players g ! 0) = playerId))"

definition disconnectGame :: "game \<Rightarrow> string \<Rightarrow> game" where
  "disconnectGame g playerId =
     (let g1 = (case findIndex (\<lambda>p. id_p p = playerId) (players g) of
                  None \<Rightarrow> g
                | Some i \<Rightarrow>
                    g\<lparr>players := (players g)[i := (players g ! i)\<lparr>connected_p := False\<rparr>]\<rparr>)
      in if host g1 = Some playerId then
           (let connectedPlayers = filter connected_p (players g1) in
            if length connectedPlayers > 0
            then g1\<lparr>host := Some (id_p (connectedPlayers ! 0))\<rparr>
            else g1)
         else g1)"

text \<open>\<open>removePlayerFromGame\<close> on the game it finds.\<close>

definition removePlayer :: "game \<Rightarrow> string \<Rightarrow> game" where
  "removePlayer g playerId = g\<lparr>players := filter (\<lambda>p. id_p p \<noteq> playerId) (players g)\<rparr>"

text \<open>The first half of the exit-game handler: the exiting player joins \<open>exitedPlayers\<close>
  (a fresh \<open>Set\<close> when the field is absent).\<close>

definition markExited :: "game \<Rightarrow> string \<Rightarrow> game" where
  "markExited g playerId =
     g\<lparr>exitedPlayers :=
         Some (insert playerId (case exitedPlayers g of None \<Rightarrow> {} | Some s \<Rightarrow> s))\<rparr>"

definition allPlayersExited :: "game \<Rightarrow> bool" where
  "allPlayersExited g =
     list_all (\<lambda>p. id_p p \<in> (case exitedPlayers g of None \<Rightarrow> {} | Some s \<Rightarrow> s)
                   \<or> \<not> connected_p p) (players g)"

section \<open>The persistent store (GameDatabase)\<close>

text \<open>The \<open>games\<close> table is a map from \<open>game_id\<close> to its row. Whether the store carries out
  a write is outside the program: each writing operation takes a flag \<open>ok\<close>, false when
  the client reports an error (the operation then returns \<open>null\<close> and the table is as
  before). \<open>getGame\<close> returns \<open>null\<close> when no row has the id.\<close>

datatype visibility = Public | Private

record db_game =
  game_name :: string
  game_id :: string
  status_db :: status
  visibility :: visibility
  players_db :: "player list"
  game_state :: game
  host_player_id :: string
  current_players :: nat
  max_players :: nat

type_synonym games_table = "string \<rightharpoonup> db_game"

record game_data =
  gd_gameName :: string
  gd_gameId :: string
  gd_isPrivate :: bool
  gd_players :: "player list"
  gd_gameState :: game
  gd_hostPlayerId :: string

definition createGame :: "games_table \<Rightarrow> bool \<Rightarrow> game_data \<Rightarrow> games_table \<times> db_game option" where
  "createGame tbl ok gameData =
     (let row = \<lparr>game_name = gd_gameName gameData,
                 game_id = gd_gameId gameData,
                 status_db = Waiting,
                 visibility = (if gd_isPrivate gameData then Private else Public),
                 players_db = gd_players gameData,
                 game_state = gd_gameState gameData,
                 host_player_id = gd_hostPlayerId gameData,
                 current_players = length (gd_players gameData),
                 max_players = 4\<rparr>
      in if ok then (tbl(gd_gameId gameData \<mapsto> row), Some row) else (tbl, None))"

definition getGame :: "games_table \<Rightarrow> string \<Rightarrow> db_game option" where
  "getGame tbl gid = tbl gid"

definition addPlayerToGame ::
  "games_table \<Rightarrow> bool \<Rightarrow> string \<Rightarrow> player \<Rightarrow> games_table \<times> db_game option" where
  "addPlayerToGame tbl ok gid playerData =
     (case getGame tbl gid of
        None \<Rightarrow> (tbl, None)
      | Some row \<Rightarrow>
          (let updatedPlayers = players_db row @ [playerData];
               currentPlayerCount = length updatedPlayers;
               row1 = row\<lparr>players_db := updatedPlayers, current_players := currentPlayerCount\<rparr>
           in if ok then (tbl(gid \<mapsto> row1), Some row1) else (tbl, None)))"

definition updateGameStatus ::
  "games_table \<Rightarrow> bool \<Rightarrow> string \<Rightarrow> status \<Rightarrow> games_table" where
  "updateGameStatus tbl ok gid st =
     (case tbl gid of
        None \<Rightarrow> tbl
      | Some row \<Rightarrow> if ok then tbl(gid \<mapsto> row\<lparr>status_db := st\<rparr>) else tbl)"

section \<open>The server: store of live games, socket bindings, handlers\<close>

record playerInfo =
  gameId :: string
  playerId :: string
  playerName :: string

text \<open>\<open>activeGameStates\<close>, the map \<open>players\<close> from socket id to binding (named
  \<open>socketPlayers\<close> here, \<open>players\<close> being the game's field) and the table.\<close>

record server =
  activeGameStates :: "string \<rightharpoonup> game"
  socketPlayers :: "string \<rightharpoonup> playerInfo"
  db :: games_table

datatype reply =
    ErrorMessage string
  | GameCreated string string
  | GameJoined string string
  | GameStarted
  | NoReply

text \<open>\<open>walletAddress || generatePlayerId()\<close>; \<open>fresh\<close> is the identifier the generator
  returns.\<close>

definition choosePlayerId :: "string option \<Rightarrow> string \<Rightarrow> string" where
  "choosePlayerId wallet fresh = (if truthy_str wallet then the wallet else fresh)"

definition createGameHandler ::
  "server \<Rightarrow> string \<Rightarrow> string \<Rightarrow> string \<Rightarrow> string \<Rightarrow> bool \<Rightarrow> string option \<Rightarrow> string \<Rightarrow> bool
     \<Rightarrow> server \<times> reply" where
  "createGameHandler srv sock gName gid pName isPriv wallet fresh ok =
     (let pid = choosePlayerId wallet fresh;
          player = createPlayer pid pName sock wallet;
          gameState = createInitialGameState
            \<lparr>players := players createInitialGameState @ [player],
             host := Some pid, gameName := gName, isPrivate := isPriv\<rparr>;
          (tbl, dbGame) = createGame (db srv) ok
             \<lparr>gd_gameName = gName, gd_gameId = gid, gd_isPrivate = isPriv,
              gd_players = [player], gd_gameState = gameState, gd_hostPlayerId = pid\<rparr>
      in case dbGame of
           None \<Rightarrow> (srv\<lparr>db := tbl\<rparr>, ErrorMessage ''Failed to create game'')
         | Some _ \<Rightarrow>
             (srv\<lparr>db := tbl,
                  activeGameStates := (activeGameStates srv)(gid \<mapsto> gameState),
                  socketPlayers := (socketPlayers srv)
                     (sock \<mapsto> \<lparr>gameId = gid, playerId = pid, playerName = pName\<rparr>)\<rparr>,
              GameCreated gid pid))"

text \<open>The game rebuilt from its row when it is not in memory.\<close>

definition reconstruct :: "db_game \<Rightarrow> game" where
  "reconstruct dbGame =
     (game_state dbGame)
       \<lparr>players := players_db dbGame,
        gameName := game_name dbGame,
        isPrivate := (visibility dbGame = Private),
        status := status_db dbGame,
        host := Some (host_player_id dbGame),
        marketPrices :=
          (case marketPrices (game_state dbGame) of
             Some m \<Rightarrow> Some m
           | None \<Rightarrow> Some defaultPrices)\<rparr>"

text \<open>The game the join-game and get-game-state handlers work on, and the store once it is
  installed: \<open>None\<close> when neither the memory nor the table knows the id.\<close>

definition lookupGame :: "server \<Rightarrow> string \<Rightarrow> (server \<times> game) option" where
  "lookupGame srv gid =
     (case activeGameStates srv gid of
        Some game \<Rightarrow> Some (srv, game)
      | None \<Rightarrow>
          (case getGame (db srv) gid of
             None \<Rightarrow> None
           | Some dbGame \<Rightarrow>
               Some (srv\<lparr>activeGameStates :=
                            (activeGameStates srv)(gid \<mapsto> reconstruct dbGame)\<rparr>,
                     reconstruct dbGame)))"

definition joinGame ::
  "server \<Rightarrow> string \<Rightarrow> string \<Rightarrow> string \<Rightarrow> string option \<Rightarrow> string \<Rightarrow> bool \<Rightarrow> server \<times> reply" where
  "joinGame srv sock gid pName wallet fresh ok =
     (case lookupGame srv gid of
        None \<Rightarrow> (srv, ErrorMessage ''Game not found'')
      | Some (srv1, game) \<Rightarrow>
          if length (players game) \<ge> 4 then (srv1, ErrorMessage ''Game is full'')
          else if status game \<noteq> Waiting then (srv1, ErrorMessage ''Game already in progress'')
          else
            (let pid = choosePlayerId wallet fresh;
                 player = createPlayer pid pName sock wallet;
                 game1 = game\<lparr>players := players game @ [player]\<rparr>
             in (srv1\<lparr>activeGameStates := (activeGameStates srv1)(gid \<mapsto> game1),
                      socketPlayers := (socketPlayers srv1)
                        (sock \<mapsto> \<lparr>gameId = gid, playerId = pid, playerName = pName\<rparr>),
                      db := fst (addPlayerToGame (db srv1) ok gid player)\<rparr>,
                 GameJoined gid pid)))"

text \<open>The start-game handler. Reading \<open>game.host\<close> of a missing game throws inside the
  \<open>try\<close>: the handler answers with its catch-all error.\<close>

definition startGame :: "server \<Rightarrow> string \<Rightarrow> bool \<Rightarrow> server \<times> reply" where
  "startGame srv sock ok =
     (case socketPlayers srv sock of
        None \<Rightarrow> (srv, NoReply)
      | Some info \<Rightarrow>
          (case activeGameStates srv (gameId info) of
             None \<Rightarrow> (srv, ErrorMessage ''Failed to start game'')
           | Some game \<Rightarrow>
               if \<not> isHost game (playerId info)
               then (srv, ErrorMessage ''Only the host can start the game'')
               else if length (players game) < 2
               then (srv, ErrorMessage ''Need at least 2 players to start'')
               else
                 (srv\<lparr>activeGameStates := (activeGameStates srv)
                         (gameId info \<mapsto> game\<lparr>status := Playing, timerActive := True\<rparr>),
                      db := updateGameStatus (db srv) ok (gameId info) Playing\<rparr>,
                  GameStarted)))"

text \<open>\<open>closeGame\<close>: the game leaves the memory, its row is marked closed, and the bindings of
  the sockets in its room (the sockets bound to this game) are dropped.\<close>

definition closeGame :: "server \<Rightarrow> bool \<Rightarrow> string \<Rightarrow> server" where
  "closeGame srv ok gid =
     srv\<lparr>activeGameStates := (activeGameStates srv)(gid := None),
         db := updateGameStatus (db srv) ok gid Closed,
         socketPlayers :=
           (\<lambda>s. case socketPlayers srv s of
                   None \<Rightarrow> None
                 | Some info \<Rightarrow> if gameId info = gid then None else Some info)\<rparr>"

definition removePlayerFromGame :: "server \<Rightarrow> string \<Rightarrow> string \<Rightarrow> server" where
  "removePlayerFromGame srv gid pid =
     (case activeGameStates srv gid of
        None \<Rightarrow> srv
      | Some game \<Rightarrow>
          srv\<lparr>activeGameStates := (activeGameStates srv)(gid \<mapsto> removePlayer game pid)\<rparr>)"

definition exitGame :: "server \<Rightarrow> string \<Rightarrow> bool \<Rightarrow> server" where
  "exitGame srv sock ok =
     (case socketPlayers srv sock of
        None \<Rightarrow> srv
      | Some info \<Rightarrow>
          (case activeGameStates srv (gameId info) of
             None \<Rightarrow> srv
           | Some game \<Rightarrow>
               (let game1 = markExited game (playerId info);
                    srv1 = srv\<lparr>activeGameStates :=
                                 (activeGameStates srv)(gameId info \<mapsto> game1)\<rparr>;
                    srv2 = (if allPlayersExited game1 then closeGame srv1 ok (gameId info)
                            else removePlayerFromGame srv1 (gameId info) (playerId info))
                in srv2\<lparr>socketPlayers := (socketPlayers srv2)(sock := None)\<rparr>)))"

definition disconnect :: "server \<Rightarrow> string \<Rightarrow> server" where
  "disconnect srv sock =
     (case socketPlayers srv sock of
        None \<Rightarrow> srv
      | Some info \<Rightarrow>
          (let srv1 = (case activeGameStates srv (gameId info) of
                         None \<Rightarrow> srv
                       | Some game \<Rightarrow>
                           srv\<lparr>activeGameStates := (activeGameStates srv)
                                 (gameId info \<mapsto> disconnectGame game (playerId info))\<rparr>)
           in srv1\<lparr>socketPlayers := (socketPlayers srv1)(sock := None)\<rparr>))"

definition playerActionHandler ::
  "server \<Rightarrow> string \<Rightarrow> action \<Rightarrow> resource \<Rightarrow> int \<Rightarrow> string option \<Rightarrow> server" where
  "playerActionHandler srv sock act res amount targetPlayer =
     (case socketPlayers srv sock of
        None \<Rightarrow> srv
      | Some info \<Rightarrow>
          (case activeGameStates srv (gameId info) of
             None \<Rightarrow> srv
           | Some game \<Rightarrow>
               if status game \<noteq> Playing then srv
               else srv\<lparr>activeGameStates := (activeGameStates srv)
                          (gameId info \<mapsto>
                             playerAction game (playerId info) act res amount targetPlayer)\<rparr>))"

subsection \<open>update-market-prices\<close>

text \<open>A field of the payload's \<open>marketPrices\<close> object is absent (\<open>None\<close>) or a number; zero is
  falsy.\<close>

record price_payload =
  gold_price :: "int option"
  water_price :: "int option"
  oil_price :: "int option"

fun truthy_num :: "int option \<Rightarrow> bool" where
  "truthy_num None = False"
| "truthy_num (Some n) = (n \<noteq> 0)"

text \<open>\<open>field || game.marketPrices.key\<close>. The right operand is evaluated only when the field is
  falsy; reading a key of an absent \<open>game.marketPrices\<close> throws (\<open>None\<close>).\<close>

definition orPrice ::
  "int option \<Rightarrow> resource_amounts option \<Rightarrow> (resource_amounts \<Rightarrow> int) \<Rightarrow> int option" where
  "orPrice field old key = (if truthy_num field then field else map_option key old)"

definition updatePrices :: "game \<Rightarrow> price_payload \<Rightarrow> game" where
  "updatePrices g mp =
     (case (orPrice (gold_price mp) (marketPrices g) gold,
            orPrice (water_price mp) (marketPrices g) water,
            orPrice (oil_price mp) (marketPrices g) oil) of
        (Some a, Some b, Some c) \<Rightarrow> g\<lparr>marketPrices := Some \<lparr>gold = a, water = b, oil = c\<rparr>\<rparr>
      | _ \<Rightarrow> g)"

definition updateMarketPrices :: "server \<Rightarrow> string \<Rightarrow> price_payload option \<Rightarrow> server" where
  "updateMarketPrices srv sock payload =
     (case socketPlayers srv sock of
        None \<Rightarrow> srv
      | Some info \<Rightarrow>
          (case activeGameStates srv (gameId info) of
             None \<Rightarrow> srv
           | Some game \<Rightarrow>
               if status game \<noteq> Playing then srv
               else if \<not> isHost game (playerId info) then srv
               else (case payload of
                       None \<Rightarrow> srv
                     | Some mp \<Rightarrow>
                         srv\<lparr>activeGameStates := (activeGameStates srv)
                               (gameId info \<mapsto> updatePrices game mp)\<rparr>)))"

subsection \<open>Timer callbacks on the store\<close>

text \<open>The path on which the interval's callback calls \<open>finishGame\<close>, whose last step marks
  the row finished.\<close>

definition lastRoundOver :: "game \<Rightarrow> bool" where
  "lastRoundOver g =
     (timerActive g \<and> inRoundDelay g
      \<and> timeRemaining_d (the (roundDelay g)) - 1 \<le> 0
      \<and> currentRound g + 1 > maxRounds g)"

definition timerTick :: "server \<Rightarrow> string \<Rightarrow> (nat \<Rightarrow> real) \<Rightarrow> bool \<Rightarrow> server" where
  "timerTick srv gid rnd ok =
     (case activeGameStates srv gid of
        None \<Rightarrow> srv
      | Some game \<Rightarrow>
          srv\<lparr>activeGameStates := (activeGameStates srv)(gid \<mapsto> tick rnd game),
              db := (if lastRoundOver game then updateGameStatus (db srv) ok gid Finished
                     else db srv)\<rparr>)"

definition marketFluctuation :: "server \<Rightarrow> (string \<Rightarrow> nat \<Rightarrow> real) \<Rightarrow> server" where
  "marketFluctuation srv rnd =
     srv\<lparr>activeGameStates :=
           (\<lambda>gid. map_option (fluctuate (rnd gid)) (activeGameStates srv gid))\<rparr>"

definition getGameState :: "server \<Rightarrow> string \<Rightarrow> server" where
  "getGameState srv gid =
     (if gid = [] then srv
      else case lookupGame srv gid of None \<Rightarrow> srv | Some (srv1, game) \<Rightarrow> srv1)"

subsection \<open>Events\<close>

text \<open>The events that change the state, with their payloads and with what the environment
  decides (generated identifiers, random draws, whether the store's write succeeds). The
  hourly eviction sweeps only delete rows and games and are left out.\<close>

datatype event =
    CreateGame string string string string bool "string option" string bool
  | JoinGame string string string "string option" string bool
  | GetGameState string
  | StartGame string bool
  | ExitGame string bool
  | UpdateMarketPrices string "price_payload option"
  | PlayerAction string action resource int "string option"
  | Disconnect string
  | TimerTick string "nat \<Rightarrow> real" bool
  | MarketFluctuation "string \<Rightarrow> nat \<Rightarrow> real"
  | InactivityClose string bool

fun step :: "server \<Rightarrow> event \<Rightarrow> server" where
  "step srv (CreateGame sock gName gid pName isPriv wallet fresh ok) =
     fst (createGameHandler srv sock gName gid pName isPriv wallet fresh ok)"
| "step srv (JoinGame sock gid pName wallet fresh ok) =
     fst (joinGame srv sock gid pName wallet fresh ok)"
| "step srv (GetGameState gid) = getGameState srv gid"
| "step srv (StartGame sock ok) = fst (startGame srv sock ok)"
| "step srv (ExitGame sock ok) = exitGame srv sock ok"
| "step srv (UpdateMarketPrices sock payload) = updateMarketPrices srv sock payload"
| "step srv (PlayerAction sock act res amount targetPlayer) =
     playerActionHandler srv sock act res amount targetPlayer"
| "step srv (Disconnect sock) = disconnect srv sock"
| "step srv (TimerTick gid rnd ok) = timerTick srv gid rnd ok"
| "step srv (MarketFluctuation rnd) = marketFluctuation srv rnd"
| "step srv (InactivityClose gid ok) = closeGame srv ok gid"

definition run :: "server \<Rightarrow> event list \<Rightarrow> server" where
  "run srv es = foldl step srv es"

text \<open>The server at process start.\<close>

definition initialServer :: server where
  "initialServer = \<lparr>activeGameStates = Map.empty, socketPlayers = Map.empty, db = Map.empty\<rparr>"



section \<open>Properties stated on states\<close>

definition assetsOk :: "player \<Rightarrow> bool" where
  "assetsOk p = (totalAssets p = gold (assets p) + water (assets p) + oil (assets p))"


definition countInv :: "server \<Rightarrow> bool" where
  "countInv srv =
     ((\<forall>gid row. db srv gid = Some row \<longrightarrow> current_players row = length (players_db row))
      \<and> (\<forall>gid g row. activeGameStates srv gid = Some g \<longrightarrow> db srv gid = Some row
            \<longrightarrow> current_players row = length (players g)))"


section \<open>Example sessions\<close>

text \<open>Ann creates game \<open>G1\<close> from socket \<open>s1\<close> with wallet \<open>A\<close>; Bob joins from \<open>s2\<close> with
  wallet \<open>B\<close>; Ann starts the game.\<close>

definition lobbyEvents :: "event list" where
  "lobbyEvents =
     [CreateGame ''s1'' ''Demo'' ''G1'' ''Ann'' False (Some ''A'') ''player_1'' True,
      JoinGame ''s2'' ''G1'' ''Bob'' (Some ''B'') ''player_2'' True]"

definition ann :: player where
  "ann = createPlayer ''A'' ''Ann'' ''s1'' (Some ''A'')"

definition bob :: player where
  "bob = createPlayer ''B'' ''Bob'' ''s2'' (Some ''B'')"

definition cid :: player where
  "cid = createPlayer ''C'' ''Cid'' ''s3'' (Some ''C'')"

definition dan :: player where
  "dan = createPlayer ''D'' ''Dan'' ''s4'' (Some ''D'')"

definition lobbyGame :: game where
  "lobbyGame = createInitialGameState
     \<lparr>players := [ann, bob], host := Some ''A'', gameName := ''Demo''\<rparr>"

definition playingGame :: game where
  "playingGame = lobbyGame\<lparr>status := Playing, timerActive := True\<rparr>"

text \<open>The same lobby with four players: full.\<close>

definition fullLobby :: game where
  "fullLobby = lobbyGame\<lparr>players := [ann, bob, cid, dan]\<rparr>"

section \<open>Auxiliary facts\<close>

declare show_nat.simps [simp del]

lemma findIndex_Some:
  "findIndex P xs = Some i \<Longrightarrow> i < length xs \<and> P (xs ! i) \<and> (\<forall>j<i. \<not> P (xs ! j))"
proof (induction xs arbitrary: i)
  case Nil
  then show ?case by simp
next
  case (Cons x xs)
  show ?case
  proof (cases "P x")
    case True
    with Cons.prems show ?thesis by simp
  next
    case False
    with Cons.prems obtain k where k: "findIndex P xs = Some k" "i = Suc k"
      by auto
    from Cons.IH [OF k(1)] False k(2) show ?thesis
      by (auto simp: less_Suc_eq_0_disj)
  qed
qed

lemma findIndex_None: "findIndex P xs = None \<longleftrightarrow> (\<forall>x\<in>set xs. \<not> P x)"
  by (induction xs) auto

lemma findIndex_update:
  "i < length xs \<Longrightarrow> P x = P (xs ! i) \<Longrightarrow> findIndex P (xs[i := x]) = findIndex P xs"
proof (induction xs arbitrary: i)
  case Nil
  then show ?case by simp
next
  case (Cons y ys)
  then show ?case by (cases i) auto
qed

lemma getr_setr [simp]: "getr res (setr res v m) = v"
  by (cases res) simp_all



subsection \<open>The example sessions, evaluated\<close>

lemmas handler_defs = createGameHandler_def joinGame_def lookupGame_def getGame_def
  createGame_def addPlayerToGame_def choosePlayerId_def initialServer_def

lemma run_snoc: "run srv (es @ [e]) = step (run srv es) e"
  by (simp add: run_def)

lemma lobby_game: "activeGameStates (run initialServer lobbyEvents) ''G1'' = Some lobbyGame"
  by (simp add: run_def lobbyEvents_def handler_defs lobbyGame_def ann_def bob_def Let_def
        createInitialGameState_def)


lemma lobby_binding:
  "socketPlayers (run initialServer lobbyEvents) ''s1''
     = Some \<lparr>gameId = ''G1'', playerId = ''A'', playerName = ''Ann''\<rparr>"
  by (simp add: run_def lobbyEvents_def handler_defs lobbyGame_def ann_def bob_def Let_def
        createInitialGameState_def)

lemma isHost_lobby: "isHost lobbyGame ''A''"
  by (simp add: isHost_def lobbyGame_def)

lemma playing_game:
  "activeGameStates (run initialServer (lobbyEvents @ [StartGame ''s1'' True])) ''G1''
     = Some playingGame"
  by (simp add: run_snoc startGame_def lobby_game lobby_binding isHost_lobby playingGame_def)
     (simp add: lobbyGame_def)

lemma playing_binding:
  "socketPlayers (run initialServer (lobbyEvents @ [StartGame ''s1'' True])) ''s1''
     = Some \<lparr>gameId = ''G1'', playerId = ''A'', playerName = ''Ann''\<rparr>"
  by (simp add: run_snoc startGame_def lobby_game lobby_binding isHost_lobby)

lemma players_playingGame: "players playingGame = [ann, bob]"
  by (simp add: playingGame_def lobbyGame_def)


section \<open>Buy and Sell\<close>





section \<open>join-game\<close>

lemma lookupGame_installed:
  "lookupGame srv gid = Some (srv1, g) \<Longrightarrow> activeGameStates srv1 gid = Some g"
  by (auto simp: lookupGame_def split: option.splits)

text \<open>
  Claim C8. For a join-game on a session that exists (in memory, or rebuilt from its row and
  installed; \<open>srv1\<close> is the server holding it as \<open>g\<close>): with four or more players the handler
  answers the error "Game is full", otherwise with a status other than waiting it answers
  the error "Game already in progress", in both cases with the session as it was; otherwise
  it answers game-joined and the session is \<open>g\<close> with the new player appended to \<open>players\<close>.
  So it answers an error exactly when \<open>players.length \<ge> 4\<close> or the status is not waiting.
\<close>

theorem join_game_rejects_full_or_started:
  assumes "lookupGame srv gid = Some (srv1, g)"
  shows "activeGameStates srv1 gid = Some g
     \<and> (length (players g) \<ge> 4 \<longrightarrow>
          joinGame srv sock gid pName wallet fresh ok = (srv1, ErrorMessage ''Game is full''))
     \<and> (length (players g) < 4 \<and> status g \<noteq> Waiting \<longrightarrow>
          joinGame srv sock gid pName wallet fresh ok
            = (srv1, ErrorMessage ''Game already in progress''))
     \<and> (length (players g) < 4 \<and> status g = Waiting \<longrightarrow>
          snd (joinGame srv sock gid pName wallet fresh ok)
            = GameJoined gid (choosePlayerId wallet fresh)
          \<and> activeGameStates (fst (joinGame srv sock gid pName wallet fresh ok)) gid
            = Some (g\<lparr>players := players g
                 @ [createPlayer (choosePlayerId wallet fresh) pName sock wallet]\<rparr>))
     \<and> ((\<exists>m. snd (joinGame srv sock gid pName wallet fresh ok) = ErrorMessage m)
          \<longleftrightarrow> (length (players g) \<ge> 4 \<or> status g \<noteq> Waiting))"
  using assms lookupGame_installed [OF assms]
  by (simp add: joinGame_def Let_def)

theorem join_game_rejects_full_or_started_witness:
  "snd (joinGame (run initialServer lobbyEvents) ''s3'' ''G1'' ''Cid'' (Some ''C'')
          ''player_3'' True) = GameJoined ''G1'' ''C''
   \<and> activeGameStates (fst (joinGame (run initialServer lobbyEvents) ''s3'' ''G1'' ''Cid''
         (Some ''C'') ''player_3'' True)) ''G1'' = Some (lobbyGame\<lparr>players := [ann, bob, cid]\<rparr>)
   \<and> joinGame (run initialServer (lobbyEvents @ [StartGame ''s1'' True])) ''s3'' ''G1'' ''Cid''
         (Some ''C'') ''player_3'' True
       = (run initialServer (lobbyEvents @ [StartGame ''s1'' True]),
          ErrorMessage ''Game already in progress'')
   \<and> joinGame (initialServer\<lparr>activeGameStates := [''G1'' \<mapsto> fullLobby]\<rparr>) ''s5'' ''G1'' ''Eve''
         None ''player_5'' True
       = (initialServer\<lparr>activeGameStates := [''G1'' \<mapsto> fullLobby]\<rparr>,
          ErrorMessage ''Game is full'')"
proof -
  let ?lobby = "run initialServer lobbyEvents"
  let ?running = "run initialServer (lobbyEvents @ [StartGame ''s1'' True])"
  let ?full = "initialServer\<lparr>activeGameStates := [''G1'' \<mapsto> fullLobby]\<rparr>"
  have l1: "lookupGame ?lobby ''G1'' = Some (?lobby, lobbyGame)"
    by (simp add: lookupGame_def lobby_game)
  have c1: "length (players lobbyGame) < 4 \<and> status lobbyGame = Waiting"
    by (simp add: lobbyGame_def createInitialGameState_def)
  have l2: "lookupGame ?running ''G1'' = Some (?running, playingGame)"
    by (simp add: lookupGame_def playing_game)
  have c2: "length (players playingGame) < 4 \<and> status playingGame \<noteq> Waiting"
    by (simp add: playingGame_def lobbyGame_def)
  have l3: "lookupGame ?full ''G1'' = Some (?full, fullLobby)"
    by (simp add: lookupGame_def)
  have c3: "length (players fullLobby) \<ge> 4"
    by (simp add: fullLobby_def)
  from join_game_rejects_full_or_started
         [OF l1, of "''s3''" "''Cid''" "Some ''C''" "''player_3''" True] c1
  have "snd (joinGame ?lobby ''s3'' ''G1'' ''Cid'' (Some ''C'') ''player_3'' True)
          = GameJoined ''G1'' ''C''
      \<and> activeGameStates (fst (joinGame ?lobby ''s3'' ''G1'' ''Cid'' (Some ''C'')
            ''player_3'' True)) ''G1'' = Some (lobbyGame\<lparr>players := [ann, bob, cid]\<rparr>)"
    by (auto simp: choosePlayerId_def lobbyGame_def cid_def)
  moreover
  from join_game_rejects_full_or_started
         [OF l2, of "''s3''" "''Cid''" "Some ''C''" "''player_3''" True] c2
  have "joinGame ?running ''s3'' ''G1'' ''Cid'' (Some ''C'') ''player_3'' True
          = (?running, ErrorMessage ''Game already in progress'')"
    by blast
  moreover
  from join_game_rejects_full_or_started
         [OF l3, of "''s5''" "''Eve''" None "''player_5''" True] c3
  have "joinGame ?full ''s5'' ''G1'' ''Eve'' None ''player_5'' True
          = (?full, ErrorMessage ''Game is full'')"
    by blast
  ultimately show ?thesis by blast
qed

section \<open>update-market-prices\<close>

lemma updatePrices_Some:
  assumes "marketPrices g = Some old"
  shows "updatePrices g mp = g\<lparr>marketPrices := Some
     \<lparr>gold = (if truthy_num (gold_price mp) then the (gold_price mp) else gold old),
      water = (if truthy_num (water_price mp) then the (water_price mp) else water old),
      oil = (if truthy_num (oil_price mp) then the (oil_price mp) else oil old)\<rparr>\<rparr>"
  using assms
  by (cases "gold_price mp"; cases "water_price mp"; cases "oil_price mp")
     (simp_all add: updatePrices_def orPrice_def)

text \<open>
  Claim C10. The caller's socket is bound to a playing game \<open>g\<close> with market prices \<open>old\<close>,
  and the caller passes the host check. After update-market-prices with the payload \<open>mp\<close>
  the game is \<open>g\<close> with new market prices, in which a resource whose field is absent or \<open>0\<close>
  keeps its old price and a resource whose field is a non-zero number has that number as its
  price, each resource on its own. Hence a price that is \<open>0\<close> after the event was \<open>0\<close> before
  it: the event never sets a price to \<open>0\<close>.
\<close>

theorem update_market_prices_keeps_price_on_falsy_field:
  assumes binding: "socketPlayers srv sock = Some info"
    and live: "activeGameStates srv (gameId info) = Some g"
    and playing: "status g = Playing"
    and caller: "isHost g (playerId info)"
    and old: "marketPrices g = Some old"
  shows "\<exists>new. activeGameStates (updateMarketPrices srv sock (Some mp)) (gameId info)
                 = Some (g\<lparr>marketPrices := Some new\<rparr>)
     \<and> (gold_price mp = None \<or> gold_price mp = Some 0 \<longrightarrow> gold new = gold old)
     \<and> (water_price mp = None \<or> water_price mp = Some 0 \<longrightarrow> water new = water old)
     \<and> (oil_price mp = None \<or> oil_price mp = Some 0 \<longrightarrow> oil new = oil old)
     \<and> (\<forall>v. gold_price mp = Some v \<and> v \<noteq> 0 \<longrightarrow> gold new = v)
     \<and> (\<forall>v. water_price mp = Some v \<and> v \<noteq> 0 \<longrightarrow> water new = v)
     \<and> (\<forall>v. oil_price mp = Some v \<and> v \<noteq> 0 \<longrightarrow> oil new = v)
     \<and> (gold new = 0 \<longrightarrow> gold old = 0)
     \<and> (water new = 0 \<longrightarrow> water old = 0)
     \<and> (oil new = 0 \<longrightarrow> oil old = 0)"
proof -
  let ?new = "\<lparr>gold = (if truthy_num (gold_price mp) then the (gold_price mp) else gold old),
      water = (if truthy_num (water_price mp) then the (water_price mp) else water old),
      oil = (if truthy_num (oil_price mp) then the (oil_price mp) else oil old)\<rparr>"
  have "activeGameStates (updateMarketPrices srv sock (Some mp)) (gameId info)
          = Some (g\<lparr>marketPrices := Some ?new\<rparr>)"
    using binding live playing caller
    by (simp add: updateMarketPrices_def updatePrices_Some [OF old])
  moreover have "gold_price mp = None \<or> gold_price mp = Some 0 \<longrightarrow> gold ?new = gold old"
    by auto
  moreover have "water_price mp = None \<or> water_price mp = Some 0 \<longrightarrow> water ?new = water old"
    by auto
  moreover have "oil_price mp = None \<or> oil_price mp = Some 0 \<longrightarrow> oil ?new = oil old"
    by auto
  moreover have "\<forall>v. gold_price mp = Some v \<and> v \<noteq> 0 \<longrightarrow> gold ?new = v" by simp
  moreover have "\<forall>v. water_price mp = Some v \<and> v \<noteq> 0 \<longrightarrow> water ?new = v" by simp
  moreover have "\<forall>v. oil_price mp = Some v \<and> v \<noteq> 0 \<longrightarrow> oil ?new = v" by simp
  moreover have "gold ?new = 0 \<longrightarrow> gold old = 0" by (cases "gold_price mp") auto
  moreover have "water ?new = 0 \<longrightarrow> water old = 0" by (cases "water_price mp") auto
  moreover have "oil ?new = 0 \<longrightarrow> oil old = 0" by (cases "oil_price mp") auto
  ultimately show ?thesis by blast
qed

theorem update_market_prices_keeps_price_on_falsy_field_witness:
  "activeGameStates
     (updateMarketPrices (run initialServer (lobbyEvents @ [StartGame ''s1'' True])) ''s1''
        (Some \<lparr>gold_price = Some 120, water_price = Some 0, oil_price = None\<rparr>)) ''G1''
   = Some (playingGame\<lparr>marketPrices := Some \<lparr>gold = 120, water = 50, oil = 150\<rparr>\<rparr>)"
proof -
  let ?srv = "run initialServer (lobbyEvents @ [StartGame ''s1'' True])"
  let ?info = "\<lparr>gameId = ''G1'', playerId = ''A'', playerName = ''Ann''\<rparr>"
  let ?mp = "\<lparr>gold_price = Some 120, water_price = Some 0, oil_price = None\<rparr>"
  have live: "activeGameStates ?srv (gameId ?info) = Some playingGame"
    by (simp add: playing_game)
  have playing: "status playingGame = Playing"
    by (simp add: playingGame_def)
  have caller: "isHost playingGame (playerId ?info)"
    by (simp add: isHost_def playingGame_def lobbyGame_def)
  have old: "marketPrices playingGame = Some \<lparr>gold = 100, water = 50, oil = 150\<rparr>"
    by (simp add: playingGame_def lobbyGame_def createInitialGameState_def)
  from update_market_prices_keeps_price_on_falsy_field
         [OF playing_binding live playing caller old, of ?mp]
  obtain new where upd: "activeGameStates (updateMarketPrices ?srv ''s1'' (Some ?mp)) ''G1''
        = Some (playingGame\<lparr>marketPrices := Some new\<rparr>)"
    and "gold new = 120" and "water new = 50" and "oil new = 150"
    by auto
  then have "new = \<lparr>gold = 120, water = 50, oil = 150\<rparr>"
    by simp
  with upd show ?thesis by simp
qed

section \<open>Host failover on disconnect\<close>

lemma disconnectGame_players:
  "players (disconnectGame g pid) =
     (case findIndex (\<lambda>p. id_p p = pid) (players g) of
        None \<Rightarrow> players g
      | Some i \<Rightarrow> (players g)[i := (players g ! i)\<lparr>connected_p := False\<rparr>])"
  by (simp add: disconnectGame_def Let_def split: option.splits)

lemma disconnectGame_host:
  "host (disconnectGame g pid) =
     (if host g = Some pid then
        (case filter connected_p (players (disconnectGame g pid)) of
           [] \<Rightarrow> host g
         | c # cs \<Rightarrow> Some (id_p c))
      else host g)"
  by (auto simp add: disconnectGame_def Let_def neq_Nil_conv split: option.splits list.splits)

lemma failover_chain:
  assumes "players g = [a, b, c]" and "distinct [id_p a, id_p b, id_p c]"
    and "connected_p a" "connected_p b" "connected_p c" and "host g = Some (id_p a)"
  shows "host (disconnectGame g (id_p a)) = Some (id_p b)"
    and "host (disconnectGame (disconnectGame g (id_p a)) (id_p b)) = Some (id_p c)"
    and "host (disconnectGame (disconnectGame (disconnectGame g (id_p a)) (id_p b)) (id_p c))
           = Some (id_p c)"
proof -
  let ?g1 = "disconnectGame g (id_p a)"
  let ?g2 = "disconnectGame ?g1 (id_p b)"
  let ?g3 = "disconnectGame ?g2 (id_p c)"
  have p1: "players ?g1 = [a\<lparr>connected_p := False\<rparr>, b, c]"
    using assms by (simp add: disconnectGame_players)
  show h1: "host ?g1 = Some (id_p b)"
    using assms by (simp add: disconnectGame_host [of g] p1)
  have p2: "players ?g2 = [a\<lparr>connected_p := False\<rparr>, b\<lparr>connected_p := False\<rparr>, c]"
    using assms by (auto simp add: disconnectGame_players [of ?g1] p1)
  show h2: "host ?g2 = Some (id_p c)"
    using assms by (simp add: disconnectGame_host [of ?g1] p2 h1)
  have p3: "players ?g3 = [a\<lparr>connected_p := False\<rparr>, b\<lparr>connected_p := False\<rparr>,
                           c\<lparr>connected_p := False\<rparr>]"
    using assms by (auto simp add: disconnectGame_players [of ?g2] p2)
  show "host ?g3 = Some (id_p c)"
    using assms by (simp add: disconnectGame_host [of ?g2] p3 h2)
qed

text \<open>
  Claim C6. The disconnect handler marks the first player with the disconnecting id as not
  connected and changes nothing else in \<open>players\<close>. When the disconnecting player is the
  host, the new host is the first player of the resulting list whose \<open>connected\<close> flag is
  true, and the host stays as it was when no player is connected; a disconnect of another
  player leaves the host alone. For players \<open>[a, b, c]\<close> with distinct ids, all connected,
  and host \<open>a\<close>: \<open>a\<close> disconnects and \<open>b\<close> is host, then \<open>b\<close> disconnects and \<open>c\<close> is host, then
  \<open>c\<close> disconnects and the host is still \<open>c\<close>.
\<close>

theorem disconnect_reassigns_host:
  "players (disconnectGame g pid) =
     (case findIndex (\<lambda>p. id_p p = pid) (players g) of
        None \<Rightarrow> players g
      | Some i \<Rightarrow> (players g)[i := (players g ! i)\<lparr>connected_p := False\<rparr>])
   \<and> (host g = Some pid \<longrightarrow>
        host (disconnectGame g pid) =
          (case filter connected_p (players (disconnectGame g pid)) of
             [] \<Rightarrow> host g
           | c # cs \<Rightarrow> Some (id_p c)))
   \<and> (host g \<noteq> Some pid \<longrightarrow> host (disconnectGame g pid) = host g)
   \<and> (players g3 = [a, b, c] \<and> distinct [id_p a, id_p b, id_p c]
        \<and> connected_p a \<and> connected_p b \<and> connected_p c \<and> host g3 = Some (id_p a) \<longrightarrow>
        host (disconnectGame g3 (id_p a)) = Some (id_p b)
        \<and> host (disconnectGame (disconnectGame g3 (id_p a)) (id_p b)) = Some (id_p c)
        \<and> host (disconnectGame (disconnectGame (disconnectGame g3 (id_p a)) (id_p b)) (id_p c))
            = Some (id_p c))"
  using failover_chain [of g3 a b c]
  by (simp add: disconnectGame_players disconnectGame_host [of g pid])

theorem disconnect_reassigns_host_witness:
  "host (disconnectGame (lobbyGame\<lparr>players := [ann, bob, cid]\<rparr>) ''A'') = Some ''B''
   \<and> host (disconnectGame (disconnectGame (lobbyGame\<lparr>players := [ann, bob, cid]\<rparr>) ''A'') ''B'')
       = Some ''C''
   \<and> host (disconnectGame (disconnectGame (disconnectGame
              (lobbyGame\<lparr>players := [ann, bob, cid]\<rparr>) ''A'') ''B'') ''C'') = Some ''C''"
proof -
  let ?g = "lobbyGame\<lparr>players := [ann, bob, cid]\<rparr>"
  have h: "players ?g = [ann, bob, cid] \<and> distinct [id_p ann, id_p bob, id_p cid]
        \<and> connected_p ann \<and> connected_p bob \<and> connected_p cid \<and> host ?g = Some (id_p ann)"
    by (simp add: lobbyGame_def ann_def bob_def cid_def createPlayer_def)
  have ids: "id_p ann = ''A''" "id_p bob = ''B''" "id_p cid = ''C''"
    by (simp_all add: ann_def bob_def cid_def createPlayer_def)
  from disconnect_reassigns_host [of ?g "''A''" ?g ann bob cid] h
  show ?thesis
    unfolding ids by blast
qed

section \<open>Final scoring\<close>

lemma mset_insertBy: "mset (insertBy cmp x xs) = add_mset x (mset xs)"
  by (induction xs) auto

lemma sortBy_Nil: "sortBy cmp [] = []"
  by (simp add: sortBy_def)

lemma sortBy_Cons: "sortBy cmp (x # xs) = insertBy cmp x (sortBy cmp xs)"
  by (simp add: sortBy_def)

lemma mset_sortBy: "mset (sortBy cmp xs) = mset xs"
  by (induction xs) (simp_all add: sortBy_Nil sortBy_Cons mset_insertBy)

lemma sortBy_eq_Nil: "sortBy cmp xs = [] \<longleftrightarrow> xs = []"
  by (metis mset_sortBy mset_zero_iff)

lemma set_insertBy: "set (insertBy cmp x xs) = insert x (set xs)"
  by (induction xs) auto

text \<open>With the comparator \<open>(a, b) => f(b) - f(a)\<close> the result is in descending order of
  \<open>f\<close>, and elements with equal \<open>f\<close> keep their order.\<close>

lemma sorted_insertBy:
  "sorted_wrt (\<lambda>a b. f b \<le> f a) xs \<Longrightarrow>
   sorted_wrt (\<lambda>a b. f b \<le> (f a :: int)) (insertBy (\<lambda>a b. f b - f a) x xs)"
  by (induction xs) (auto simp: set_insertBy)

lemma sorted_sortBy:
  "sorted_wrt (\<lambda>a b. f b \<le> (f a :: int)) (sortBy (\<lambda>a b. f b - f a) xs)"
  by (induction xs) (simp_all add: sortBy_Nil sortBy_Cons sorted_insertBy)

lemma filter_insertBy:
  "filter (\<lambda>y. f y = (k::int)) (insertBy (\<lambda>a b. f b - f a) x xs)
     = (if f x = k then x # filter (\<lambda>y. f y = k) xs else filter (\<lambda>y. f y = k) xs)"
  by (induction xs) auto

lemma filter_sortBy:
  "filter (\<lambda>y. f y = (k::int)) (sortBy (\<lambda>a b. f b - f a) xs) = filter (\<lambda>y. f y = k) xs"
  by (induction xs) (simp_all add: sortBy_Nil sortBy_Cons filter_insertBy)

lemma hd_insertBy:
  "hd (insertBy (\<lambda>a b. f b - f a) x xs)
     = (if xs = [] \<or> f (hd xs) \<le> (f x :: int) then x else hd xs)"
  by (cases xs) auto

text \<open>The head of the sorted list is the first element of the input that has the greatest
  \<open>f\<close>.\<close>

lemma hd_sortBy:
  "xs \<noteq> [] \<Longrightarrow>
   \<exists>i<length xs. hd (sortBy (\<lambda>a b. f b - f a) xs) = xs ! i
      \<and> (\<forall>j<length xs. f (xs ! j) \<le> (f (xs ! i) :: int))
      \<and> (\<forall>j<i. f (xs ! j) < f (xs ! i))"
proof (induction xs)
  case Nil
  then show ?case by simp
next
  case (Cons x xs)
  show ?case
  proof (cases "xs = []")
    case True
    then show ?thesis by (simp add: sortBy_Cons sortBy_Nil)
  next
    case False
    from Cons.IH [OF False] obtain i where i: "i < length xs"
      and hd: "hd (sortBy (\<lambda>a b. f b - f a) xs) = xs ! i"
      and mx: "\<forall>j<length xs. f (xs ! j) \<le> f (xs ! i)"
      and fst: "\<forall>j<i. f (xs ! j) < f (xs ! i)"
      by blast
    have ne: "sortBy (\<lambda>a b. f b - f a) xs \<noteq> []"
      using False by (simp add: sortBy_eq_Nil)
    show ?thesis
    proof (cases "f (xs ! i) \<le> f x")
      case True
      then have "hd (sortBy (\<lambda>a b. f b - f a) (x # xs)) = (x # xs) ! 0"
        by (simp add: sortBy_Cons hd_insertBy hd)
      moreover have "\<forall>j<length (x # xs). f ((x # xs) ! j) \<le> f ((x # xs) ! 0)"
        using mx True by (auto simp: nth_Cons split: nat.splits)
      ultimately show ?thesis by (intro exI [of _ 0]) simp
    next
      case gt: False
      then have "hd (sortBy (\<lambda>a b. f b - f a) (x # xs)) = (x # xs) ! Suc i"
        using ne by (simp add: sortBy_Cons hd_insertBy hd)
      moreover have "\<forall>j<length (x # xs). f ((x # xs) ! j) \<le> f ((x # xs) ! Suc i)"
        using mx gt by (auto simp: nth_Cons split: nat.splits)
      moreover have "\<forall>j<Suc i. f ((x # xs) ! j) < f ((x # xs) ! Suc i)"
        using fst gt by (auto simp: nth_Cons split: nat.splits)
      ultimately show ?thesis using i by (intro exI [of _ "Suc i"]) simp
    qed
  qed
qed

lemma finalScore_scorePlayer:
  "finalScore (scorePlayer mp p)
     = tokens p + gold (assets p) * gold mp + water (assets p) * water mp
         + oil (assets p) * oil mp"
  by (simp add: scorePlayer_def)

lemma finishGame_fields:
  "finalScores (finishGame g)
     = Some (sortBy (\<lambda>a b. finalScore b - finalScore a)
               (map (scorePlayer (resourcePrices g)) (players g)))"
  "winner (finishGame g)
     = (case sortBy (\<lambda>a b. finalScore b - finalScore a)
               (map (scorePlayer (resourcePrices g)) (players g)) of
          [] \<Rightarrow> None | w # ws \<Rightarrow> Some w)"
  "status (finishGame g) = Finished"
  "players (finishGame g) = players g"
  by (simp_all add: finishGame_def Let_def)

text \<open>
  Claim C4. When a game with at least one player is finished, its status is finished;
  \<open>finalScores\<close> holds the players, each with
  \<open>finalScore = tokens + gold * price(gold) + water * price(water) + oil * price(oil)\<close>
  at the current market prices, in descending order of \<open>finalScore\<close>, players with equal
  scores in their join order (a stable sort of \<open>players\<close>); the winner is the head of
  \<open>finalScores\<close>: a player whose score is the maximum and who is the earliest in join order
  among the players with that score.
\<close>

theorem finish_game_scores_and_winner:
  assumes "players g \<noteq> []"
  shows "status (finishGame g) = Finished
     \<and> (\<exists>fs. finalScores (finishGame g) = Some fs
          \<and> mset fs = mset (map (scorePlayer (resourcePrices g)) (players g))
          \<and> sorted_wrt (\<lambda>a b. finalScore b \<le> finalScore a) fs
          \<and> (\<forall>k. filter (\<lambda>s. finalScore s = k) fs
                  = filter (\<lambda>s. finalScore s = k)
                      (map (scorePlayer (resourcePrices g)) (players g)))
          \<and> winner (finishGame g) = Some (hd fs))
     \<and> (\<forall>p. finalScore (scorePlayer (resourcePrices g) p)
            = tokens p + gold (assets p) * gold (resourcePrices g)
                + water (assets p) * water (resourcePrices g)
                + oil (assets p) * oil (resourcePrices g))
     \<and> (\<exists>i<length (players g).
            winner (finishGame g) = Some (scorePlayer (resourcePrices g) (players g ! i))
          \<and> (\<forall>j<length (players g).
                finalScore (scorePlayer (resourcePrices g) (players g ! j))
                  \<le> finalScore (scorePlayer (resourcePrices g) (players g ! i)))
          \<and> (\<forall>j<i. finalScore (scorePlayer (resourcePrices g) (players g ! j))
                  < finalScore (scorePlayer (resourcePrices g) (players g ! i))))"
proof -
  let ?xs = "map (scorePlayer (resourcePrices g)) (players g)"
  let ?fs = "sortBy (\<lambda>a b. finalScore b - finalScore a) ?xs"
  have ne: "?xs \<noteq> []" using assms by simp
  then have fs_ne: "?fs \<noteq> []" by (simp add: sortBy_eq_Nil)
  then have win: "winner (finishGame g) = Some (hd ?fs)"
    by (cases ?fs) (simp_all add: finishGame_fields)
  have part1: "\<exists>fs. finalScores (finishGame g) = Some fs
          \<and> mset fs = mset ?xs
          \<and> sorted_wrt (\<lambda>a b. finalScore b \<le> finalScore a) fs
          \<and> (\<forall>k. filter (\<lambda>s. finalScore s = k) fs = filter (\<lambda>s. finalScore s = k) ?xs)
          \<and> winner (finishGame g) = Some (hd fs)"
    using win by (intro exI [of _ ?fs])
      (simp add: finishGame_fields mset_sortBy sorted_sortBy filter_sortBy)
  from hd_sortBy [OF ne, of finalScore] obtain i where i: "i < length ?xs"
    and hd: "hd ?fs = ?xs ! i"
    and mx: "\<forall>j<length ?xs. finalScore (?xs ! j) \<le> finalScore (?xs ! i)"
    and fst: "\<forall>j<i. finalScore (?xs ! j) < finalScore (?xs ! i)"
    by blast
  have part3: "\<exists>i<length (players g).
            winner (finishGame g) = Some (scorePlayer (resourcePrices g) (players g ! i))
          \<and> (\<forall>j<length (players g).
                finalScore (scorePlayer (resourcePrices g) (players g ! j))
                  \<le> finalScore (scorePlayer (resourcePrices g) (players g ! i)))
          \<and> (\<forall>j<i. finalScore (scorePlayer (resourcePrices g) (players g ! j))
                  < finalScore (scorePlayer (resourcePrices g) (players g ! i)))"
    using i hd mx fst win by (intro exI [of _ i]) auto
  show ?thesis
    using part1 part3 by (simp add: finishGame_fields finalScore_scorePlayer)
qed

text \<open>Ann and Bob both finish with 1000 tokens and no assets: Ann, who joined first, wins.\<close>

theorem finish_game_scores_and_winner_witness:
  "players playingGame \<noteq> []
   \<and> winner (finishGame playingGame) = Some (scorePlayer (resourcePrices playingGame) ann)
   \<and> finalScore (scorePlayer (resourcePrices playingGame) ann) = 1000
   \<and> finalScore (scorePlayer (resourcePrices playingGame) bob) = 1000"
proof -
  have ne: "players playingGame \<noteq> []"
    by (simp add: players_playingGame)
  have sa: "finalScore (scorePlayer (resourcePrices playingGame) ann) = 1000"
    and sb: "finalScore (scorePlayer (resourcePrices playingGame) bob) = 1000"
    by (simp_all add: finalScore_scorePlayer ann_def bob_def createPlayer_def)
  from finish_game_scores_and_winner [OF ne]
  obtain i where i: "i < length (players playingGame)"
    and w: "winner (finishGame playingGame)
              = Some (scorePlayer (resourcePrices playingGame) (players playingGame ! i))"
    and first: "\<forall>j<i. finalScore (scorePlayer (resourcePrices playingGame) (players playingGame ! j))
                  < finalScore (scorePlayer (resourcePrices playingGame) (players playingGame ! i))"
    by blast
  have "i = 0"
  proof (rule ccontr)
    assume "i \<noteq> 0"
    with first have "finalScore (scorePlayer (resourcePrices playingGame) (players playingGame ! 0))
        < finalScore (scorePlayer (resourcePrices playingGame) (players playingGame ! i))"
      by blast
    moreover from i \<open>i \<noteq> 0\<close> have "i = 1" by (simp add: players_playingGame)
    ultimately show False using sa sb by (simp add: players_playingGame)
  qed
  with w ne sa sb show ?thesis by (simp add: players_playingGame)
qed

section \<open>The round timer\<close>

lemma countdownTick_seconds:
  "timeRemaining g = \<lparr>hours = 0, minutes = 0, seconds = s\<rparr> \<Longrightarrow> 0 < s \<Longrightarrow>
   countdownTick g = g\<lparr>timeRemaining := \<lparr>hours = 0, minutes = 0, seconds = s - 1\<rparr>\<rparr>"
  by (simp add: countdownTick_def Let_def)

lemma countdownTick_minute:
  "timeRemaining g = \<lparr>hours = 0, minutes = 1, seconds = 0\<rparr> \<Longrightarrow>
   countdownTick g = g\<lparr>timeRemaining := \<lparr>hours = 0, minutes = 0, seconds = 59\<rparr>\<rparr>"
  by (simp add: countdownTick_def Let_def)

lemma countdownTick_zero:
  "timeRemaining g = \<lparr>hours = 0, minutes = 0, seconds = 0\<rparr> \<Longrightarrow>
   countdownTick g = g\<lparr>roundDelay := Some \<lparr>active = True, timeRemaining_d = 10\<rparr>\<rparr>"
  by (simp add: countdownTick_def Let_def)

text \<open>Ticks 1 to 60 count the clock down from 0:00:59 to 0:00:00.\<close>

lemma ticks_counting:
  assumes "timerActive g" and "\<not> inRoundDelay g"
    and "timeRemaining g = \<lparr>hours = 0, minutes = 1, seconds = 0\<rparr>"
  shows "k < 60 \<Longrightarrow>
     ticks (Suc k) rnd g = g\<lparr>timeRemaining := \<lparr>hours = 0, minutes = 0, seconds = 59 - int k\<rparr>\<rparr>"
proof (induction k)
  case 0
  show ?case using assms by (simp add: tick_def countdownTick_minute)
next
  case (Suc k)
  then have IH: "ticks (Suc k) rnd g
       = g\<lparr>timeRemaining := \<lparr>hours = 0, minutes = 0, seconds = 59 - int k\<rparr>\<rparr>"
    by simp
  let ?g = "g\<lparr>timeRemaining := \<lparr>hours = 0, minutes = 0, seconds = 59 - int k\<rparr>\<rparr>"
  have a: "timerActive ?g" "\<not> inRoundDelay ?g"
    using assms by (simp_all add: inRoundDelay_def)
  have "tick (rnd (Suc k)) ?g = countdownTick ?g"
    using a by (simp add: tick_def)
  also have "\<dots> = ?g\<lparr>timeRemaining := \<lparr>hours = 0, minutes = 0, seconds = (59 - int k) - 1\<rparr>\<rparr>"
    using Suc.prems by (intro countdownTick_seconds) simp_all
  finally show ?case
    using IH by (simp add: algebra_simps)
qed

lemma ticks_60:
  assumes "timerActive g" and "\<not> inRoundDelay g"
    and "timeRemaining g = \<lparr>hours = 0, minutes = 1, seconds = 0\<rparr>"
  shows "ticks 60 rnd g = g\<lparr>timeRemaining := \<lparr>hours = 0, minutes = 0, seconds = 0\<rparr>\<rparr>"
proof -
  have "ticks (Suc 59) rnd g
      = g\<lparr>timeRemaining := \<lparr>hours = 0, minutes = 0, seconds = 59 - int 59\<rparr>\<rparr>"
    by (rule ticks_counting [OF assms]) simp
  then show ?thesis by simp
qed

text \<open>Tick 61 finds 0:00:00, borrows below zero and starts the pause.\<close>

lemma ticks_61:
  assumes "timerActive g" and "\<not> inRoundDelay g"
    and "timeRemaining g = \<lparr>hours = 0, minutes = 1, seconds = 0\<rparr>"
  shows "ticks 61 rnd g = g\<lparr>timeRemaining := \<lparr>hours = 0, minutes = 0, seconds = 0\<rparr>,
                            roundDelay := Some \<lparr>active = True, timeRemaining_d = 10\<rparr>\<rparr>"
proof -
  have "ticks 61 rnd g = tick (rnd 60) (ticks 60 rnd g)"
    by (simp add: eval_nat_numeral)
  then show ?thesis
    using assms by (simp add: ticks_60 [OF assms] tick_def inRoundDelay_def countdownTick_zero)
qed

lemma delayTick_pending:
  "1 < timeRemaining_d d \<Longrightarrow>
   delayTick rnd d g = g\<lparr>roundDelay := Some (d\<lparr>timeRemaining_d := timeRemaining_d d - 1\<rparr>)\<rparr>"
  by (simp add: delayTick_def Let_def)

lemma ticks_delay:
  assumes "timerActive g" and "\<not> inRoundDelay g"
    and "timeRemaining g = \<lparr>hours = 0, minutes = 1, seconds = 0\<rparr>"
  shows "j < 10 \<Longrightarrow>
     ticks (61 + j) rnd g = g\<lparr>timeRemaining := \<lparr>hours = 0, minutes = 0, seconds = 0\<rparr>,
                            roundDelay := Some \<lparr>active = True, timeRemaining_d = 10 - int j\<rparr>\<rparr>"
proof (induction j)
  case 0
  show ?case by (simp add: ticks_61 [OF assms])
next
  case (Suc j)
  let ?d = "\<lparr>active = True, timeRemaining_d = 10 - int j\<rparr>"
  let ?g = "g\<lparr>timeRemaining := \<lparr>hours = 0, minutes = 0, seconds = 0\<rparr>, roundDelay := Some ?d\<rparr>"
  from Suc have IH: "ticks (61 + j) rnd g = ?g" by simp
  have "ticks (61 + Suc j) rnd g = tick (rnd (61 + j)) (ticks (61 + j) rnd g)"
    by (simp only: add_Suc_right ticks.simps)
  also have "\<dots> = delayTick (rnd (61 + j)) ?d ?g"
    using assms by (simp add: IH tick_def inRoundDelay_def)
  also have "\<dots> = ?g\<lparr>roundDelay := Some (?d\<lparr>timeRemaining_d := timeRemaining_d ?d - 1\<rparr>)\<rparr>"
    using Suc.prems by (intro delayTick_pending) simp
  finally show ?case by (simp add: algebra_simps)
qed

lemma ticks_71:
  assumes "timerActive g" and "\<not> inRoundDelay g"
    and "timeRemaining g = \<lparr>hours = 0, minutes = 1, seconds = 0\<rparr>"
  shows "ticks 71 rnd g =
     delayTick (rnd 70) \<lparr>active = True, timeRemaining_d = 1\<rparr>
       (g\<lparr>timeRemaining := \<lparr>hours = 0, minutes = 0, seconds = 0\<rparr>,
          roundDelay := Some \<lparr>active = True, timeRemaining_d = 1\<rparr>\<rparr>)"
proof -
  have "ticks (61 + 9) rnd g = g\<lparr>timeRemaining := \<lparr>hours = 0, minutes = 0, seconds = 0\<rparr>,
          roundDelay := Some \<lparr>active = True, timeRemaining_d = 10 - int 9\<rparr>\<rparr>"
    by (rule ticks_delay [OF assms]) simp
  then have t70: "ticks 70 rnd g = g\<lparr>timeRemaining := \<lparr>hours = 0, minutes = 0, seconds = 0\<rparr>,
          roundDelay := Some \<lparr>active = True, timeRemaining_d = 1\<rparr>\<rparr>"
    by simp
  have "ticks 71 rnd g = tick (rnd 70) (ticks 70 rnd g)"
    by (simp add: eval_nat_numeral)
  then show ?thesis
    using assms by (simp add: t70 tick_def inRoundDelay_def)
qed

lemma delayTick_expired_fields:
  assumes "timeRemaining_d d \<le> 1"
  shows "currentRound (delayTick rnd d g) = currentRound g + 1"
    and "recentActions (delayTick rnd d g) = []"
    and "roundDelay (delayTick rnd d g) = None"
    and "currentRound g + 1 \<le> maxRounds g \<Longrightarrow>
           timeRemaining (delayTick rnd d g) = \<lparr>hours = 0, minutes = 1, seconds = 0\<rparr>
           \<and> status (delayTick rnd d g) = status g
           \<and> marketChanges (delayTick rnd d g) = rerandomize rnd (marketChanges g)"
    and "maxRounds g < currentRound g + 1 \<Longrightarrow> status (delayTick rnd d g) = Finished"
  using assms by (simp_all add: delayTick_def Let_def finishGame_def)

text \<open>
  Claim C2, as the code has it. A game whose timer is active starts a round at 0:01:00,
  outside the pause. After \<open>k\<close> ticks, \<open>1 \<le> k \<le> 60\<close>, it is still counting, with \<open>60 - k\<close>
  seconds on the clock: 0:00:00 after exactly 60 ticks. Tick 61 starts the pause
  (\<open>roundDelay.active\<close> with 10 seconds), which lasts through tick 70. After exactly 10
  further ticks, at tick 71, the pause is over, the round is \<open>current + 1\<close> and
  \<open>recentActions\<close> is empty; the clock is back at 0:01:00 when \<open>current + 1 \<le> maxRounds\<close>,
  and otherwise the game is finished.
\<close>

theorem round_timer_delay_after_61_ticks:
  assumes "timerActive g" and "\<not> inRoundDelay g"
    and "timeRemaining g = \<lparr>hours = 0, minutes = 1, seconds = 0\<rparr>"
  shows "(\<forall>k. 1 \<le> k \<and> k \<le> 60 \<longrightarrow>
            \<not> inRoundDelay (ticks k rnd g)
            \<and> timeRemaining (ticks k rnd g) = \<lparr>hours = 0, minutes = 0, seconds = 60 - int k\<rparr>)
     \<and> (\<forall>k. 61 \<le> k \<and> k \<le> 70 \<longrightarrow>
            roundDelay (ticks k rnd g) = Some \<lparr>active = True, timeRemaining_d = 71 - int k\<rparr>)
     \<and> (roundDelay (ticks 71 rnd g) = None
        \<and> currentRound (ticks 71 rnd g) = currentRound g + 1
        \<and> recentActions (ticks 71 rnd g) = []
        \<and> (currentRound g + 1 \<le> maxRounds g \<longrightarrow>
             timeRemaining (ticks 71 rnd g) = \<lparr>hours = 0, minutes = 1, seconds = 0\<rparr>
             \<and> status (ticks 71 rnd g) = status g)
        \<and> (maxRounds g < currentRound g + 1 \<longrightarrow> status (ticks 71 rnd g) = Finished))"
proof (intro conjI allI impI)
  fix k :: nat
  assume "1 \<le> k \<and> k \<le> 60"
  then obtain k' where k: "k = Suc k'" "k' < 60"
    by (cases k) auto
  have c: "ticks k rnd g
      = g\<lparr>timeRemaining := \<lparr>hours = 0, minutes = 0, seconds = 59 - int k'\<rparr>\<rparr>"
    unfolding k(1) by (rule ticks_counting [OF assms k(2)])
  show "\<not> inRoundDelay (ticks k rnd g)"
    using assms(2) by (simp add: c inRoundDelay_def)
  show "timeRemaining (ticks k rnd g) = \<lparr>hours = 0, minutes = 0, seconds = 60 - int k\<rparr>"
    unfolding c by (simp add: k(1))
next
  fix k :: nat
  assume a: "61 \<le> k \<and> k \<le> 70"
  define j where "j = k - 61"
  have j: "k = 61 + j" "j < 10"
    using a unfolding j_def by linarith+
  have "ticks k rnd g = g\<lparr>timeRemaining := \<lparr>hours = 0, minutes = 0, seconds = 0\<rparr>,
          roundDelay := Some \<lparr>active = True, timeRemaining_d = 10 - int j\<rparr>\<rparr>"
    unfolding j(1) by (rule ticks_delay [OF assms j(2)])
  then show "roundDelay (ticks k rnd g) = Some \<lparr>active = True, timeRemaining_d = 71 - int k\<rparr>"
    by (simp add: j(1))
next
  have d: "timeRemaining_d \<lparr>active = True, timeRemaining_d = 1\<rparr> \<le> 1"
    by simp
  note e = delayTick_expired_fields [OF d, where rnd = "rnd 70"
      and g = "g\<lparr>timeRemaining := \<lparr>hours = 0, minutes = 0, seconds = 0\<rparr>,
         roundDelay := Some \<lparr>active = True, timeRemaining_d = 1\<rparr>\<rparr>"]
  show "roundDelay (ticks 71 rnd g) = None"
    unfolding ticks_71 [OF assms] by (rule e(3))
  show "currentRound (ticks 71 rnd g) = currentRound g + 1"
    unfolding ticks_71 [OF assms] using e(1) by simp
  show "recentActions (ticks 71 rnd g) = []"
    unfolding ticks_71 [OF assms] by (rule e(2))
  show "timeRemaining (ticks 71 rnd g) = \<lparr>hours = 0, minutes = 1, seconds = 0\<rparr>"
    if "currentRound g + 1 \<le> maxRounds g"
    unfolding ticks_71 [OF assms] using e(4) that by simp
  show "status (ticks 71 rnd g) = status g"
    if "currentRound g + 1 \<le> maxRounds g"
    unfolding ticks_71 [OF assms] using e(4) that by simp
  show "status (ticks 71 rnd g) = Finished"
    if "maxRounds g < currentRound g + 1"
    unfolding ticks_71 [OF assms] using e(5) that by simp
qed

theorem round_timer_delay_after_61_ticks_witness:
  "timeRemaining (ticks 60 (\<lambda>t k. 0) playingGame) = \<lparr>hours = 0, minutes = 0, seconds = 0\<rparr>
   \<and> roundDelay (ticks 61 (\<lambda>t k. 0) playingGame) = Some \<lparr>active = True, timeRemaining_d = 10\<rparr>
   \<and> roundDelay (ticks 71 (\<lambda>t k. 0) playingGame) = None
   \<and> currentRound (ticks 71 (\<lambda>t k. 0) playingGame) = 2
   \<and> recentActions (ticks 71 (\<lambda>t k. 0) playingGame) = []
   \<and> timeRemaining (ticks 71 (\<lambda>t k. 0) playingGame) = \<lparr>hours = 0, minutes = 1, seconds = 0\<rparr>"
proof -
  have a: "timerActive playingGame" "\<not> inRoundDelay playingGame"
    "timeRemaining playingGame = \<lparr>hours = 0, minutes = 1, seconds = 0\<rparr>"
    by (simp_all add: playingGame_def lobbyGame_def createInitialGameState_def inRoundDelay_def)
  have r: "currentRound playingGame = 1" "maxRounds playingGame = 20"
    by (simp_all add: playingGame_def lobbyGame_def createInitialGameState_def)
  note t = round_timer_delay_after_61_ticks [OF a, of "\<lambda>t k. 0"]
  from t have "1 \<le> (60::nat) \<and> (60::nat) \<le> 60 \<longrightarrow>
      \<not> inRoundDelay (ticks 60 (\<lambda>t k. 0) playingGame)
      \<and> timeRemaining (ticks 60 (\<lambda>t k. 0) playingGame)
          = \<lparr>hours = 0, minutes = 0, seconds = 60 - int 60\<rparr>"
    by blast
  then have t60: "timeRemaining (ticks 60 (\<lambda>t k. 0) playingGame)
      = \<lparr>hours = 0, minutes = 0, seconds = 0\<rparr>"
    by simp
  from t have "61 \<le> (61::nat) \<and> (61::nat) \<le> 70 \<longrightarrow>
      roundDelay (ticks 61 (\<lambda>t k. 0) playingGame)
        = Some \<lparr>active = True, timeRemaining_d = 71 - int 61\<rparr>"
    by blast
  then have t61: "roundDelay (ticks 61 (\<lambda>t k. 0) playingGame)
      = Some \<lparr>active = True, timeRemaining_d = 10\<rparr>"
    by simp
  from t have t71: "roundDelay (ticks 71 (\<lambda>t k. 0) playingGame) = None
        \<and> currentRound (ticks 71 (\<lambda>t k. 0) playingGame) = currentRound playingGame + 1
        \<and> recentActions (ticks 71 (\<lambda>t k. 0) playingGame) = []
        \<and> (currentRound playingGame + 1 \<le> maxRounds playingGame \<longrightarrow>
             timeRemaining (ticks 71 (\<lambda>t k. 0) playingGame)
               = \<lparr>hours = 0, minutes = 1, seconds = 0\<rparr>
             \<and> status (ticks 71 (\<lambda>t k. 0) playingGame) = status playingGame)
        \<and> (maxRounds playingGame < currentRound playingGame + 1 \<longrightarrow>
             status (ticks 71 (\<lambda>t k. 0) playingGame) = Finished)"
    by blast
  show ?thesis
    using t60 t61 t71 unfolding r by simp
qed

text \<open>After exactly 60 ticks the example game is not in the pause: the clock shows 0:00:00.\<close>

theorem round_timer_not_in_delay_after_60_ticks:
  "\<not> inRoundDelay (ticks 60 (\<lambda>t k. 0) playingGame)
   \<and> roundDelay (ticks 60 (\<lambda>t k. 0) playingGame) = None
   \<and> timeRemaining playingGame = \<lparr>hours = 0, minutes = 1, seconds = 0\<rparr>
   \<and> status playingGame = Playing"
proof -
  have a: "timerActive playingGame" "\<not> inRoundDelay playingGame"
    "timeRemaining playingGame = \<lparr>hours = 0, minutes = 1, seconds = 0\<rparr>"
    by (simp_all add: playingGame_def lobbyGame_def createInitialGameState_def inRoundDelay_def)
  show ?thesis
    by (simp add: ticks_60 [OF a] inRoundDelay_def)
       (simp add: playingGame_def lobbyGame_def createInitialGameState_def)
qed

section \<open>Market changes at the start of a round\<close>

lemma randomChange_range:
  assumes "0 \<le> r" and "r < 1"
  shows "- 20 \<le> randomChange r \<and> randomChange r \<le> 19"
proof -
  have "0 \<le> r * 40" using assms by simp
  then have lo: "0 \<le> \<lfloor>r * 40\<rfloor>" by simp
  have "r * 40 < 40" using assms by simp
  then have "\<lfloor>r * 40\<rfloor> < 40" by (simp add: floor_less_iff)
  with lo show ?thesis by (simp add: randomChange_def)
qed

lemma randomChange_hit: "randomChange ((real_of_int c + 20) / 40) = c"
proof -
  have "(real_of_int c + 20) / 40 * 40 = real_of_int (c + 20)"
    by simp
  then show ?thesis
    unfolding randomChange_def by (simp only: floor_of_int)
qed

lemma randomChange_hit_unit:
  "- 20 \<le> c \<Longrightarrow> c \<le> 19 \<Longrightarrow>
   0 \<le> (real_of_int c + 20) / 40 \<and> (real_of_int c + 20) / 40 < 1"
  by simp

lemma change_rerandomize:
  "map change (rerandomize rnd ms) = map (\<lambda>k. randomChange (rnd k)) [0..<length ms]"
  by (rule nth_equalityI) (simp_all add: rerandomize_def nth_enumerate_eq)

lemma tick_new_round:
  assumes "timerActive g" and "roundDelay g = Some d" and "active d"
    and "timeRemaining_d d \<le> 1" and "currentRound g + 1 \<le> maxRounds g"
  shows "marketChanges (tick rnd g) = rerandomize rnd (marketChanges g)"
  using assms by (simp add: tick_def inRoundDelay_def delayTick_def Let_def)

text \<open>
  Claim C9, as the code has it. On the tick that ends the pause and starts the next round
  (timer active, pause with at most one second left, \<open>current + 1 \<le> maxRounds\<close>) the change
  of the \<open>k\<close>-th market change indicator becomes \<open>floor (r * 40) - 20\<close> for the \<open>k\<close>-th draw
  \<open>r\<close> of \<open>Math.random()\<close>. With draws in \<open>[0, 1)\<close> every new change lies in \<open>[-20, 19]\<close>, and
  every assignment of integers of \<open>[-20, 19]\<close> to the indicators is the outcome of some
  draws in \<open>[0, 1)\<close>.
\<close>

theorem round_start_changes_in_minus20_to_19:
  assumes "timerActive g" and "roundDelay g = Some d" and "active d"
    and "timeRemaining_d d \<le> 1" and "currentRound g + 1 \<le> maxRounds g"
  shows "map change (marketChanges (tick rnd g))
           = map (\<lambda>k. randomChange (rnd k)) [0..<length (marketChanges g)]
     \<and> ((\<forall>k. 0 \<le> rnd k \<and> rnd k < 1) \<longrightarrow>
          (\<forall>m \<in> set (marketChanges (tick rnd g)). - 20 \<le> change m \<and> change m \<le> 19))
     \<and> (\<forall>c. (\<forall>k. - 20 \<le> c k \<and> c k \<le> 19) \<longrightarrow>
          (\<exists>rnd'. (\<forall>k. 0 \<le> rnd' k \<and> rnd' k < 1)
             \<and> map change (marketChanges (tick rnd' g)) = map c [0..<length (marketChanges g)]))"
proof (intro conjI allI impI)
  show eq: "map change (marketChanges (tick rnd g))
           = map (\<lambda>k. randomChange (rnd k)) [0..<length (marketChanges g)]"
    by (simp add: tick_new_round [OF assms] change_rerandomize)
  show "\<forall>m \<in> set (marketChanges (tick rnd g)). - 20 \<le> change m \<and> change m \<le> 19"
    if unit: "\<forall>k. 0 \<le> rnd k \<and> rnd k < 1"
  proof
    fix m
    assume "m \<in> set (marketChanges (tick rnd g))"
    then have "change m \<in> set (map change (marketChanges (tick rnd g)))"
      by simp
    then obtain k where "change m = randomChange (rnd k)"
      unfolding eq by auto
    with unit randomChange_range [of "rnd k"] show "- 20 \<le> change m \<and> change m \<le> 19"
      by simp
  qed
  show "\<exists>rnd'. (\<forall>k. 0 \<le> rnd' k \<and> rnd' k < 1)
             \<and> map change (marketChanges (tick rnd' g)) = map c [0..<length (marketChanges g)]"
    if c: "\<forall>k. - 20 \<le> c k \<and> c k \<le> 19" for c :: "nat \<Rightarrow> int"
  proof (intro exI [of _ "\<lambda>k. (real_of_int (c k) + 20) / 40"] conjI allI)
    fix k
    from c have "- 20 \<le> c k" "c k \<le> 19" by simp_all
    then show "0 \<le> (real_of_int (c k) + 20) / 40" "(real_of_int (c k) + 20) / 40 < 1"
      using randomChange_hit_unit [of "c k"] by simp_all
  next
    show "map change (marketChanges (tick (\<lambda>k. (real_of_int (c k) + 20) / 40) g))
            = map c [0..<length (marketChanges g)]"
      by (simp only: tick_new_round [OF assms] change_rerandomize randomChange_hit)
  qed
qed

text \<open>The example game one second before the end of its first pause; every draw is
  \<open>39/40\<close>, the largest outcome: all three changes become 19.\<close>

theorem round_start_changes_in_minus20_to_19_witness:
  "map change (marketChanges (tick (\<lambda>k. 39 / 40)
      (playingGame\<lparr>roundDelay := Some \<lparr>active = True, timeRemaining_d = 1\<rparr>\<rparr>))) = [19, 19, 19]"
proof -
  let ?g = "playingGame\<lparr>roundDelay := Some \<lparr>active = True, timeRemaining_d = 1\<rparr>\<rparr>"
  have a: "timerActive ?g" "roundDelay ?g = Some \<lparr>active = True, timeRemaining_d = 1\<rparr>"
    "active \<lparr>active = True, timeRemaining_d = 1\<rparr>"
    "timeRemaining_d \<lparr>active = True, timeRemaining_d = 1\<rparr> \<le> 1"
    "currentRound ?g + 1 \<le> maxRounds ?g"
    by (simp_all add: playingGame_def lobbyGame_def createInitialGameState_def)
  have n: "length (marketChanges ?g) = 3"
    by (simp add: playingGame_def lobbyGame_def createInitialGameState_def)
  have u: "[0..<3] = [0, 1, 2]"
    by (simp add: upt_rec)
  from round_start_changes_in_minus20_to_19 [OF a, of "\<lambda>k. 39 / 40"]
  have "map change (marketChanges (tick (\<lambda>k. 39 / 40) ?g))
          = map (\<lambda>k. randomChange (39 / 40)) [0..<length (marketChanges ?g)]"
    by blast
  then show ?thesis
    unfolding n u by (simp add: randomChange_def)
qed

text \<open>No draw of \<open>[0, 1)\<close> gives the change \<open>+20\<close>.\<close>

theorem random_change_never_plus_20:
  "\<not> (\<exists>r. 0 \<le> r \<and> r < 1 \<and> randomChange r = 20)"
  using randomChange_range by fastforce

section \<open>Derived totals and the persisted player count\<close>

lemma assetsOk_recomputeTotal [simp]: "assetsOk (recomputeTotal p)"
  by (simp add: assetsOk_def recomputeTotal_def)

lemma assetsOk_createPlayer [simp]: "assetsOk (createPlayer pid pn sock w)"
  by (simp add: assetsOk_def createPlayer_def)

lemma assetsOk_connected [simp]: "assetsOk (p\<lparr>connected_p := b\<rparr>) = assetsOk p"
  by (simp add: assetsOk_def)











lemma tick_players [simp]: "players (tick rnd g) = players g"
  by (simp add: tick_def delayTick_def countdownTick_def finishGame_def Let_def
        split: prod.splits)

lemma fluctuate_players [simp]: "players (fluctuate rnd g) = players g"
  by (simp add: fluctuate_def)

lemma updatePrices_players [simp]: "players (updatePrices g mp) = players g"
  by (simp add: updatePrices_def split: option.splits prod.splits)

lemma reconstruct_players [simp]: "players (reconstruct row) = players_db row"
  by (simp add: reconstruct_def)



lemma disconnectGame_length [simp]:
  "length (players (disconnectGame g pid)) = length (players g)"
  by (simp add: disconnectGame_players split: option.splits)


lemma markExited_players [simp]: "players (markExited g pid) = players g"
  by (simp add: markExited_def)

lemma updateGameStatus_row:
  "updateGameStatus tbl ok gid st gid' = Some row \<Longrightarrow>
   \<exists>row0. tbl gid' = Some row0 \<and> players_db row = players_db row0
      \<and> current_players row = current_players row0"
  by (auto simp: updateGameStatus_def split: option.splits if_splits)

























lemma countInv_status:
  "countInv srv \<Longrightarrow> countInv (srv\<lparr>db := updateGameStatus (db srv) ok gid st\<rparr>)"
  by (auto simp add: countInv_def dest!: updateGameStatus_row)
















lemma exitGame_db:
  "socketPlayers srv sock = Some info \<Longrightarrow> activeGameStates srv (gameId info) = Some g \<Longrightarrow>
   \<not> allPlayersExited (markExited g (playerId info)) \<Longrightarrow>
   db (exitGame srv sock ok) = db srv
   \<and> activeGameStates (exitGame srv sock ok) (gameId info)
       = Some (removePlayer (markExited g (playerId info)) (playerId info))"
  by (simp add: exitGame_def Let_def removePlayerFromGame_def)




section \<open>Actions whose precondition is unmet\<close>

lemma recomputeTotal_id: "assetsOk p \<Longrightarrow> recomputeTotal p = p"
  by (simp add: assetsOk_def recomputeTotal_def)

text \<open>A Buy the player cannot pay, and a Sell or a Burn of more than the player owns, leave
  the game as it is (the actor's \<open>totalAssets\<close> was consistent and is recomputed to the same
  value).\<close>

lemma unmet_buy_sell_burn_unchanged:
  assumes found: "findIndex (\<lambda>q. id_p q = pid) (players g) = Some i"
    and ok: "assetsOk (players g ! i)"
    and unmet: "act = Buy \<and> tokens (players g ! i) < getr res (resourcePrices g) * a
        \<or> (act = Sell \<or> act = Burn) \<and> getr res (assets (players g ! i)) < a"
  shows "playerAction g pid act res a tgt = g"
proof -
  from findIndex_Some [OF found] have i: "i < length (players g)" by simp
  have same: "(players g)[i := recomputeTotal (players g ! i)] = players g"
    using ok by (simp add: recomputeTotal_id)
  from unmet show ?thesis
    using found
    by (auto simp add: playerAction_def buyCase_def sellCase_def burnCase_def Let_def same)
qed

text \<open>A Sabotage by an actor who has 100 tokens, on a target that is not found or owns less
  than the amount: the 100 tokens are taken before the target is looked at, and nothing is
  logged.\<close>

lemma sabotage_failed_target:
  assumes found: "findIndex (\<lambda>q. id_p q = pid) (players g) = Some i"
    and rich: "100 \<le> tokens (players g ! i)" and named: "truthy_str tgt"
    and target: "findIndex (\<lambda>q. Some (id_p q) = tgt) (players g) = None
        \<or> (\<exists>j. findIndex (\<lambda>q. Some (id_p q) = tgt) (players g) = Some j
              \<and> getr res (assets (players g ! j)) < a)"
  shows "playerAction g pid Sabotage res a tgt =
     g\<lparr>players := (players g)
          [i := recomputeTotal ((players g ! i)\<lparr>tokens := tokens (players g ! i) - 100\<rparr>)]\<rparr>"
proof -
  from findIndex_Some [OF found] have i: "i < length (players g)" by simp
  let ?ps = "(players g)[i := (players g ! i)\<lparr>tokens := tokens (players g ! i) - 100\<rparr>]"
  have fi: "findIndex (\<lambda>q. Some (id_p q) = tgt) ?ps
      = findIndex (\<lambda>q. Some (id_p q) = tgt) (players g)"
    using i by (simp add: findIndex_update)
  have as: "assets (?ps ! j) = assets (players g ! j)" for j
    using i by (cases "j = i") simp_all
  from target have "sabotageCase g i res a tgt = (g\<lparr>players := ?ps\<rparr>, [])"
    using rich named by (auto simp add: sabotageCase_def Let_def fi as)
  then show ?thesis
    using found i by (simp add: playerAction_def Let_def)
qed

text \<open>
  Claim C1. In the running example game Ann (1000 tokens) sabotages Bob's gold for an amount
  of 5 while Bob owns no gold. The precondition of the action is unmet and no action text
  is appended, but Ann's tokens drop to 900: the state is not unchanged.
\<close>

theorem sabotage_on_poor_target_charges_actor:
  "activeGameStates
     (playerActionHandler (run initialServer (lobbyEvents @ [StartGame ''s1'' True]))
        ''s1'' Sabotage Gold 5 (Some ''B'')) ''G1''
     = Some (playingGame\<lparr>players := [ann\<lparr>tokens := 900\<rparr>, bob]\<rparr>)
   \<and> players playingGame = [ann, bob]
   \<and> tokens ann = 1000
   \<and> getr Gold (assets bob) = 0
   \<and> recentActions (playingGame\<lparr>players := [ann\<lparr>tokens := 900\<rparr>, bob]\<rparr>) = recentActions playingGame"
proof -
  have found: "findIndex (\<lambda>q. id_p q = ''A'') (players playingGame) = Some 0"
    by (simp add: players_playingGame ann_def createPlayer_def)
  have rich: "100 \<le> tokens (players playingGame ! 0)"
    by (simp add: players_playingGame ann_def createPlayer_def)
  have target: "findIndex (\<lambda>q. Some (id_p q) = Some ''B'') (players playingGame) = None
        \<or> (\<exists>j. findIndex (\<lambda>q. Some (id_p q) = Some ''B'') (players playingGame) = Some j
              \<and> getr Gold (assets (players playingGame ! j)) < 5)"
    by (simp add: players_playingGame ann_def bob_def createPlayer_def)
  have "playerAction playingGame ''A'' Sabotage Gold 5 (Some ''B'')
      = playingGame\<lparr>players := [ann\<lparr>tokens := 900\<rparr>, bob]\<rparr>"
    by (simp add: sabotage_failed_target [OF found rich _ target] players_playingGame
          recomputeTotal_def ann_def createPlayer_def)
  then show ?thesis
    by (simp add: playerActionHandler_def playing_binding playing_game players_playingGame)
       (simp add: playingGame_def ann_def bob_def createPlayer_def)
qed

section \<open>exit-game and the host\<close>

text \<open>exit-game never writes \<open>host\<close>: when players remain, the game afterwards is the old one
  with the exiting id in \<open>exitedPlayers\<close> and without the players of that id.\<close>

lemma exitGame_keeps_host:
  assumes "socketPlayers srv sock = Some info"
    and "activeGameStates srv (gameId info) = Some g"
    and "\<not> allPlayersExited (markExited g (playerId info))"
  shows "\<exists>g'. activeGameStates (exitGame srv sock ok) (gameId info) = Some g'
     \<and> host g' = host g
     \<and> players g' = filter (\<lambda>p. id_p p \<noteq> playerId info) (players g)"
  using exitGame_db [OF assms, of ok]
  by (simp add: removePlayer_def markExited_def)

text \<open>
  Claim C3. Ann, the host, creates the game and Bob joins; Ann sends exit-game. Bob has
  neither exited nor disconnected, so the game stays open with \<open>players = [bob]\<close> and
  \<open>exitedPlayers = {A}\<close>, and \<open>host\<close> is still Ann's id: the id of an exited player who is
  no longer in \<open>players\<close>.
\<close>

theorem host_exit_leaves_exited_host:
  "activeGameStates (run initialServer (lobbyEvents @ [ExitGame ''s1'' True])) ''G1''
     = Some (lobbyGame\<lparr>players := [bob], exitedPlayers := Some {''A''}\<rparr>)
   \<and> host (lobbyGame\<lparr>players := [bob], exitedPlayers := Some {''A''}\<rparr>) = Some ''A''
   \<and> ''A'' \<notin> set (map id_p (players (lobbyGame\<lparr>players := [bob], exitedPlayers := Some {''A''}\<rparr>)))
   \<and> id_p bob \<notin> {''A''} \<and> connected_p bob"
proof -
  let ?info = "\<lparr>gameId = ''G1'', playerId = ''A'', playerName = ''Ann''\<rparr>"
  have live: "activeGameStates (run initialServer lobbyEvents) (gameId ?info) = Some lobbyGame"
    by (simp add: lobby_game)
  have some_left: "\<not> allPlayersExited (markExited lobbyGame (playerId ?info))"
    by (simp add: allPlayersExited_def markExited_def lobbyGame_def ann_def bob_def
          createPlayer_def createInitialGameState_def)
  have g: "removePlayer (markExited lobbyGame ''A'') ''A''
      = lobbyGame\<lparr>players := [bob], exitedPlayers := Some {''A''}\<rparr>"
    by (simp add: removePlayer_def markExited_def lobbyGame_def ann_def bob_def
          createPlayer_def createInitialGameState_def)
  from exitGame_db [OF lobby_binding live some_left, of True]
  have "activeGameStates (exitGame (run initialServer lobbyEvents) ''s1'' True) ''G1''
      = Some (lobbyGame\<lparr>players := [bob], exitedPlayers := Some {''A''}\<rparr>)"
    by (simp add: g)
  moreover have "host (lobbyGame\<lparr>players := [bob], exitedPlayers := Some {''A''}\<rparr>) = Some ''A''"
    by (simp add: lobbyGame_def)
  moreover have "id_p bob \<notin> {''A''} \<and> connected_p bob"
    by (simp add: bob_def createPlayer_def)
  ultimately show ?thesis
    by (auto simp add: run_snoc)
qed

end
